theory Spec2Isabelle
  imports Complex_Main "HOL-Library.Log_Nat"
begin

section \<open>JavaScript strings and objects\<close>

text \<open>
  A string is a list of code units. The model covers the code units below 256 (ASCII and
  the Latin-1 supplement), one \<^typ>\<open>char\<close> each; on these, \<^verbatim>\<open>toLowerCase\<close> maps
  \<^verbatim>\<open>A-Z\<close> and the accented capitals \<^verbatim>\<open>U+00C0-U+00DE\<close> (without the
  multiplication sign \<^verbatim>\<open>U+00D7\<close>) 32 places up and leaves every other unit alone,
  and the regular-expression class \<^verbatim>\<open>\s\<close> holds tab, line feed, vertical tab,
  form feed, carriage return, space and the no-break space.
\<close>

definition toLowerCase_char :: "char \<Rightarrow> char" where
  "toLowerCase_char c =
     (let n = (of_char c :: nat)
      in if (65 \<le> n \<and> n \<le> 90) \<or> (192 \<le> n \<and> n \<le> 222 \<and> n \<noteq> 215)
         then char_of (n + 32) else c)"

definition toLowerCase :: "string \<Rightarrow> string" where
  "toLowerCase s = map toLowerCase_char s"

definition is_whitespace :: "char \<Rightarrow> bool" where
  "is_whitespace c = ((of_char c :: nat) \<in> {9, 10, 11, 12, 13, 32, 160})"

text \<open>
  \<^verbatim>\<open>s.replace(/\s+/g, '_')\<close>: every maximal run of whitespace becomes one underscore.
  The flag says whether the unit before was whitespace, that is, whether the run's
  underscore is already written.
\<close>

fun replace_ws_from :: "bool \<Rightarrow> string \<Rightarrow> string" where
  "replace_ws_from in_run [] = []"
| "replace_ws_from in_run (c # cs) =
     (if is_whitespace c
      then (if in_run then replace_ws_from True cs else CHR ''_'' # replace_ws_from True cs)
      else c # replace_ws_from False cs)"

definition replace_whitespace :: "string \<Rightarrow> string" where
  "replace_whitespace s = replace_ws_from False s"

text \<open>
  \<^verbatim>\<open>x.toLowerCase().replace(/\s+/g, '_')\<close>, the normalisation that
  \<^verbatim>\<open>calculateTDEE\<close> and \<^verbatim>\<open>getNutritionInfo\<close> both apply to their string argument.
\<close>

definition normalize_key :: "string \<Rightarrow> string" where
  "normalize_key s = replace_whitespace (toLowerCase s)"

text \<open>
  Both tables are object literals, so their prototype is \<^verbatim>\<open>Object.prototype\<close> and the
  bracket read \<^verbatim>\<open>obj[key]\<close> finds the object's own properties first and then the
  members of \<^verbatim>\<open>Object.prototype\<close>, which are functions (and, for
  \<^verbatim>\<open>__proto__\<close>, the prototype object itself); any other key reads \<^verbatim>\<open>undefined\<close>.
\<close>

definition Object_prototype_names :: "string list" where
  "Object_prototype_names =
     [''constructor'', ''hasOwnProperty'', ''isPrototypeOf'', ''propertyIsEnumerable'',
      ''toLocaleString'', ''toString'', ''valueOf'', ''__proto__'',
      ''__defineGetter__'', ''__defineSetter__'', ''__lookupGetter__'', ''__lookupSetter__'']"

datatype 'a property = Own 'a | Inherited string | Undefined

definition get_property :: "(string \<times> 'a) list \<Rightarrow> string \<Rightarrow> 'a property" where
  "get_property obj key =
     (case map_of obj key of
        Some v \<Rightarrow> Own v
      | None \<Rightarrow> if key \<in> set Object_prototype_names then Inherited key else Undefined)"

section \<open>JavaScript numbers\<close>

text \<open>
  A number is an IEEE 754 double: a finite value, written \<open>Num r\<close> with the rational \<open>r\<close>
  it denotes, one of the two infinities, or \<^verbatim>\<open>NaN\<close>. The two zeros are one value
  \<open>Num 0\<close>: they are equal under \<^verbatim>\<open>===\<close>, and no code modelled here divides by a
  computed value or otherwise tells them apart.

  Every arithmetic operation computes the exact result and rounds it to the nearest
  double, a tie going to the even significand (\<open>to_double\<close>). For \<open>x > 0\<close>,
  \<open>exponent_of x\<close> is the \<open>e\<close> with \<^verbatim>\<open>2^e <= x < 2^(e+1)\<close>; the doubles around
  \<open>x\<close> are the multiples of \<open>quantum x\<close>, which is \<^verbatim>\<open>2^(e-52)\<close> and never less
  than \<^verbatim>\<open>2^-1074\<close> (the subnormal range); a rounded magnitude of \<^verbatim>\<open>2^1024\<close> or
  more overflows to infinity.
\<close>

datatype js_number = Num rat | PosInfinity | NegInfinity | NaN

definition exponent_of :: "rat \<Rightarrow> int" where
  "exponent_of x =
     (if 1 \<le> x then bitlen \<lfloor>x\<rfloor> - 1 else - bitlen (\<lceil>1 / x\<rceil> - 1))"

definition round_half_even :: "rat \<Rightarrow> int" where
  "round_half_even y =
     (let f = \<lfloor>y\<rfloor>; d = y - of_int f
      in if d < 1 / 2 then f
         else if 1 / 2 < d then f + 1
         else if even f then f else f + 1)"

definition quantum :: "rat \<Rightarrow> rat" where
  "quantum x = 2 powi (max (exponent_of \<bar>x\<bar>) (- 1022) - 52)"

definition to_double :: "rat \<Rightarrow> js_number" where
  "to_double x =
     (if x = 0 then Num 0
      else
        let u = quantum x;
            r = of_int (round_half_even (x / u)) * u
        in if 2 ^ 1024 \<le> \<bar>r\<bar> then (if 0 < x then PosInfinity else NegInfinity)
           else Num r)"

text \<open>A decimal literal of the source denotes the double nearest to it.\<close>

definition lit :: "rat \<Rightarrow> js_number" where
  "lit d = to_double d"

definition js_neg :: "js_number \<Rightarrow> js_number" where
  "js_neg x =
     (case x of
        Num a \<Rightarrow> Num (- a)
      | PosInfinity \<Rightarrow> NegInfinity
      | NegInfinity \<Rightarrow> PosInfinity
      | NaN \<Rightarrow> NaN)"

text \<open>\<^verbatim>\<open>x + y\<close> on numbers.\<close>

definition js_add :: "js_number \<Rightarrow> js_number \<Rightarrow> js_number" where
  "js_add x y =
     (case (x, y) of
        (Num a, Num b) \<Rightarrow> to_double (a + b)
      | (NaN, _) \<Rightarrow> NaN
      | (_, NaN) \<Rightarrow> NaN
      | (PosInfinity, NegInfinity) \<Rightarrow> NaN
      | (NegInfinity, PosInfinity) \<Rightarrow> NaN
      | (PosInfinity, _) \<Rightarrow> PosInfinity
      | (_, PosInfinity) \<Rightarrow> PosInfinity
      | (NegInfinity, _) \<Rightarrow> NegInfinity
      | (_, NegInfinity) \<Rightarrow> NegInfinity)"

text \<open>\<^verbatim>\<open>x - y\<close>.\<close>

definition js_sub :: "js_number \<Rightarrow> js_number \<Rightarrow> js_number" where
  "js_sub x y = js_add x (js_neg y)"

definition sign_of :: "js_number \<Rightarrow> rat" where
  "sign_of x =
     (case x of Num a \<Rightarrow> sgn a | PosInfinity \<Rightarrow> 1 | NegInfinity \<Rightarrow> - 1 | NaN \<Rightarrow> 0)"

definition signed_infinity :: "rat \<Rightarrow> js_number" where
  "signed_infinity s = (if s = 0 then NaN else if 0 < s then PosInfinity else NegInfinity)"

text \<open>\<^verbatim>\<open>x * y\<close>: infinity times zero is \<^verbatim>\<open>NaN\<close>.\<close>

definition js_mul :: "js_number \<Rightarrow> js_number \<Rightarrow> js_number" where
  "js_mul x y =
     (case (x, y) of
        (Num a, Num b) \<Rightarrow> to_double (a * b)
      | (NaN, _) \<Rightarrow> NaN
      | (_, NaN) \<Rightarrow> NaN
      | _ \<Rightarrow> signed_infinity (sign_of x * sign_of y))"

text \<open>
  \<^verbatim>\<open>x / y\<close>. The source divides by the literals 4 and 9 only; a zero divisor is read
  as the positive zero.
\<close>

definition js_div :: "js_number \<Rightarrow> js_number \<Rightarrow> js_number" where
  "js_div x y =
     (case (x, y) of
        (Num a, Num b) \<Rightarrow> if b = 0 then signed_infinity (sgn a) else to_double (a / b)
      | (NaN, _) \<Rightarrow> NaN
      | (_, NaN) \<Rightarrow> NaN
      | (Num a, _) \<Rightarrow> Num 0
      | (_, Num b) \<Rightarrow> signed_infinity (sign_of x * (if b < 0 then - 1 else 1))
      | _ \<Rightarrow> NaN)"

text \<open>
  \<^verbatim>\<open>Math.round\<close>: the nearest integer, a half going up; exact, since the integer
  nearest to a double is a double. Infinities and \<^verbatim>\<open>NaN\<close> stay.
\<close>

definition Math_round :: "js_number \<Rightarrow> js_number" where
  "Math_round x =
     (case x of
        Num r \<Rightarrow> Num (of_int \<lfloor>r + 1 / 2\<rfloor>)
      | PosInfinity \<Rightarrow> PosInfinity
      | NegInfinity \<Rightarrow> NegInfinity
      | NaN \<Rightarrow> NaN)"

section \<open>Nutrition logic (src/lib/nutrition-logic.ts)\<close>

subsection \<open>Food table and lookup\<close>

text \<open>Each entry is the key with its \<^verbatim>\<open>{calories, unit}\<close> object, in the source's order.\<close>

definition FOOD_101_NUTRITION_MAP :: "(string \<times> (rat \<times> string)) list" where
  "FOOD_101_NUTRITION_MAP = [
    (''apple_pie'', (237, ''slice (100g)'')),
    (''baby_back_ribs'', (361, ''1/2 rack'')),
    (''baklava'', (334, ''piece'')),
    (''beef_carpaccio'', (140, ''serving'')),
    (''beef_tartare'', (240, ''serving'')),
    (''beet_salad'', (120, ''serving'')),
    (''beignets'', (220, ''piece'')),
    (''bibimbap'', (490, ''bowl'')),
    (''bread_pudding'', (270, ''slice'')),
    (''breakfast_burrito'', (290, ''burrito'')),
    (''bruschetta'', (50, ''piece'')),
    (''caesar_salad'', (180, ''serving'')),
    (''cannoli'', (200, ''piece'')),
    (''caprese_salad'', (220, ''serving'')),
    (''carrot_cake'', (350, ''slice'')),
    (''ceviche'', (140, ''cup'')),
    (''cheesecake'', (321, ''slice'')),
    (''cheese_plate'', (450, ''serving'')),
    (''chicken_curry'', (340, ''serving'')),
    (''chicken_quesadilla'', (520, ''quesadilla'')),
    (''chicken_wings'', (203, ''3 wings'')),
    (''chocolate_cake'', (371, ''slice'')),
    (''chocolate_mousse'', (225, ''cup'')),
    (''churros'', (116, ''piece'')),
    (''clam_chowder'', (250, ''cup'')),
    (''club_sandwich'', (590, ''sandwich'')),
    (''crab_cakes'', (160, ''cake'')),
    (''creme_brulee'', (280, ''serving'')),
    (''croque_madame'', (410, ''sandwich'')),
    (''cup_cakes'', (250, ''cupcake'')),
    (''deviled_eggs'', (60, ''half egg'')),
    (''donuts'', (195, ''donut'')),
    (''dumplings'', (40, ''dumpling'')),
    (''edamame'', (121, ''cup'')),
    (''eggs_benedict'', (600, ''serving'')),
    (''escargots'', (80, ''serving'')),
    (''falafel'', (57, ''ball'')),
    (''filet_mignon'', (320, ''steak'')),
    (''fish_and_chips'', (690, ''serving'')),
    (''foie_gras'', (460, ''serving'')),
    (''french_fries'', (312, ''medium'')),
    (''french_onion_soup'', (290, ''bowl'')),
    (''french_toast'', (229, ''slice'')),
    (''fried_calamari'', (340, ''serving'')),
    (''fried_rice'', (330, ''cup'')),
    (''frozen_yogurt'', (110, ''cup'')),
    (''garlic_bread'', (150, ''slice'')),
    (''gnocchi'', (250, ''cup'')),
    (''greek_salad'', (210, ''serving'')),
    (''grilled_cheese_sandwich'', (390, ''sandwich'')),
    (''grilled_salmon'', (350, ''fillet'')),
    (''guacamole'', (150, ''serving'')),
    (''gyoza'', (50, ''piece'')),
    (''hamburger'', (295, ''burger'')),
    (''hot_and_sour_soup'', (90, ''bowl'')),
    (''hot_dog'', (150, ''dog'')),
    (''hummus'', (170, ''3 tbsp'')),
    (''ice_cream'', (207, ''scoop'')),
    (''lasagna'', (450, ''slice'')),
    (''lobster_bisque'', (300, ''cup'')),
    (''lobster_roll_sandwich'', (420, ''roll'')),
    (''macaroni_and_cheese'', (350, ''cup'')),
    (''macarons'', (70, ''cookie'')),
    (''miso_soup'', (40, ''bowl'')),
    (''mussels'', (175, ''serving'')),
    (''nachos'', (450, ''serving'')),
    (''omelette'', (154, ''serving'')),
    (''onion_rings'', (410, ''medium'')),
    (''oysters'', (50, ''6 oysters'')),
    (''pad_thai'', (350, ''cup'')),
    (''paella'', (350, ''cup'')),
    (''pancakes'', (64, ''pancake'')),
    (''panna_cotta'', (330, ''serving'')),
    (''peking_duck'', (400, ''serving'')),
    (''pho'', (350, ''bowl'')),
    (''pizza'', (266, ''slice'')),
    (''pork_chop'', (290, ''chop'')),
    (''poutine'', (510, ''serving'')),
    (''prime_rib'', (600, ''slice'')),
    (''pulled_pork_sandwich'', (550, ''sandwich'')),
    (''ramen'', (436, ''bowl'')),
    (''ravioli'', (300, ''serving'')),
    (''red_velvet_cake'', (360, ''slice'')),
    (''risotto'', (330, ''cup'')),
    (''samosa'', (150, ''piece'')),
    (''sashimi'', (40, ''piece'')),
    (''scallops'', (110, ''serving'')),
    (''seaweed_salad'', (106, ''serving'')),
    (''shrimp_and_grits'', (450, ''serving'')),
    (''spaghetti_bolognese'', (330, ''cup'')),
    (''spaghetti_carbonara'', (380, ''cup'')),
    (''spring_rolls'', (100, ''roll'')),
    (''steak'', (400, ''steak'')),
    (''strawberry_shortcake'', (250, ''slice'')),
    (''sushi'', (45, ''roll'')),
    (''tacos'', (170, ''taco'')),
    (''takoyaki'', (40, ''ball'')),
    (''tiramisu'', (360, ''slice'')),
    (''tuna_tartare'', (160, ''serving'')),
    (''waffles'', (82, ''waffle''))]"

text \<open>
  What \<^verbatim>\<open>getNutritionInfo\<close> hands back at run time: an object with calories and unit,
  or, when the key names a member of \<^verbatim>\<open>Object.prototype\<close>, that member (a truthy
  value, so the \<^verbatim>\<open>||\<close> keeps it).
\<close>

datatype nutrition_value =
    NutritionInfo (calories_of: rat) (unit_of: string)
  | PrototypeMember string

definition getNutritionInfo :: "string \<Rightarrow> nutrition_value" where
  "getNutritionInfo foodLabel =
     (let normalized = normalize_key foodLabel
      in case get_property FOOD_101_NUTRITION_MAP normalized of
           Own (c, u) \<Rightarrow> NutritionInfo c u
         | Inherited k \<Rightarrow> PrototypeMember k
         | Undefined \<Rightarrow> NutritionInfo 250 ''serving (est)'')"

subsection \<open>Energy budget\<close>

datatype gender = Male | Female | Other

definition calculateBMR :: "gender \<Rightarrow> js_number \<Rightarrow> js_number \<Rightarrow> js_number \<Rightarrow> js_number" where
  "calculateBMR g weight_kg height_cm age_years =
     (let baseCalc =
            js_sub (js_add (js_mul (lit 10) weight_kg) (js_mul (lit 6.25) height_cm))
                   (js_mul (lit 5) age_years)
      in if g = Male then js_add baseCalc (lit 5)
         else if g = Female then js_sub baseCalc (lit 161)
         else js_sub baseCalc (lit 78))"

definition ACTIVITY_MULTIPLIERS :: "(string \<times> js_number) list" where
  "ACTIVITY_MULTIPLIERS =
     [(''sedentary'', lit 1.2),
      (''lightly_active'', lit 1.375),
      (''moderately_active'', lit 1.55),
      (''very_active'', lit 1.725),
      (''super_active'', lit 1.9)]"

text \<open>
  \<^verbatim>\<open>v || d\<close> on the value read from a table of numbers: \<^verbatim>\<open>undefined\<close>,
  \<^verbatim>\<open>0\<close> and \<^verbatim>\<open>NaN\<close> are falsy, an inherited function or object is truthy and
  stays.
\<close>

definition or_default :: "js_number property \<Rightarrow> js_number \<Rightarrow> js_number property" where
  "or_default v d =
     (case v of
        Own m \<Rightarrow> if m = Num 0 \<or> m = NaN then Own d else Own m
      | Inherited k \<Rightarrow> Inherited k
      | Undefined \<Rightarrow> Own d)"

text \<open>\<^verbatim>\<open>bmr * v\<close>: a function or a plain object converts to \<^verbatim>\<open>NaN\<close>.\<close>

definition js_times :: "js_number \<Rightarrow> js_number property \<Rightarrow> js_number" where
  "js_times x v =
     (case v of Own m \<Rightarrow> js_mul x m | Inherited k \<Rightarrow> NaN | Undefined \<Rightarrow> NaN)"

definition calculateTDEE :: "js_number \<Rightarrow> string \<Rightarrow> js_number" where
  "calculateTDEE bmr_value activityLevel =
     (let normalizedLevel = normalize_key activityLevel;
          multiplier = or_default (get_property ACTIVITY_MULTIPLIERS normalizedLevel) (lit 1.2)
      in Math_round (js_times bmr_value multiplier))"

section \<open>API client\<close>

text \<open>
  The two HTTP clients are axios instances made with a base URL and a timeout only. What
  a call to one of them settles to is an input of the model: the promise is fulfilled with
  a response, whose \<^verbatim>\<open>data\<close> is the decoded body, or rejected (no answer in time, no
  connection, a status outside 2xx, anything else).
\<close>

datatype json =
    JNull
  | JBool bool
  | JNumber rat
  | JString string
  | JArray "json list"
  | JObject "(string \<times> json) list"

datatype failure = Timeout | NetworkError | BadStatus nat | OtherFailure string

datatype 'a settled = Fulfilled 'a | Rejected failure

record response =
  status :: nat
  data :: json

datatype js_error = Error string

datatype goal = Lose | Maintain | Gain

record coaching_request =
  user_tdee :: js_number
  calories_consumed_so_far :: js_number
  detected_food_label :: string
  detected_food_calories :: js_number
  user_goal :: goal

definition fallback_tip :: "string \<Rightarrow> json" where
  "fallback_tip detectedFoodLabel =
     JObject [(''coaching_tip'',
       JString (''You've logged '' @ detectedFoodLabel @ ''. Keep tracking your meals!''))]"

text \<open>
  \<^verbatim>\<open>getCoachingTip\<close>: the value is \<open>Inr\<close> of what the promise resolves to, \<open>Inl\<close>
  of what it would throw.
\<close>

definition getCoachingTip ::
  "(string \<Rightarrow> coaching_request \<Rightarrow> response settled) \<Rightarrow>
   js_number \<Rightarrow> js_number \<Rightarrow> string \<Rightarrow> js_number \<Rightarrow> goal \<Rightarrow> js_error + json" where
  "getCoachingTip post userTdee caloriesConsumed detectedFoodLabel detectedFoodCalories userGoal =
     (case post ''/coaching''
             \<lparr>user_tdee = userTdee,
              calories_consumed_so_far = caloriesConsumed,
              detected_food_label = detectedFoodLabel,
              detected_food_calories = detectedFoodCalories,
              user_goal = userGoal\<rparr> of
        Fulfilled result \<Rightarrow> Inr (data result)
      | Rejected e \<Rightarrow> Inr (fallback_tip detectedFoodLabel))"

text \<open>The shapes the two interfaces of the client declare for the response bodies.\<close>

definition is_CoachingTipResponse :: "json \<Rightarrow> bool" where
  "is_CoachingTipResponse d =
     (case d of
        JObject members \<Rightarrow>
          (case map_of members ''coaching_tip'' of Some (JString tip) \<Rightarrow> True | _ \<Rightarrow> False)
      | _ \<Rightarrow> False)"

definition is_FoodPredictionResponse :: "json \<Rightarrow> bool" where
  "is_FoodPredictionResponse d =
     (case d of
        JObject members \<Rightarrow>
          (case (map_of members ''label'', map_of members ''confidence'') of
             (Some (JString l), Some (JNumber c)) \<Rightarrow> True
           | _ \<Rightarrow> False)
      | _ \<Rightarrow> False)"

subsection \<open>Food prediction\<close>

datatype platform = Web | Native

datatype form_data =
    ImageBase64 string
  | ImageBlob string string
  | ImageFile string string string

text \<open>\<^verbatim>\<open>imageUri.split('/').pop() || 'food.jpg'\<close>: what follows the last slash.\<close>

definition filename_of :: "string \<Rightarrow> string" where
  "filename_of imageUri =
     (let lastPart = rev (takeWhile (\<lambda>c. c \<noteq> CHR ''/'') (rev imageUri))
      in if lastPart = [] then ''food.jpg'' else lastPart)"

definition is_word_char :: "char \<Rightarrow> bool" where
  "is_word_char c =
     (let n = (of_char c :: nat)
      in (48 \<le> n \<and> n \<le> 57) \<or> (65 \<le> n \<and> n \<le> 90) \<or> n = 95 \<or> (97 \<le> n \<and> n \<le> 122))"

text \<open>
  \<^verbatim>\<open>/\.(\w+)$/.exec(filename)\<close> matches when a dot is followed by word characters
  only, at least one, up to the end; the group is what follows that dot.
\<close>

definition mime_type_of :: "string \<Rightarrow> string" where
  "mime_type_of filename =
     (let ext = rev (takeWhile (\<lambda>c. c \<noteq> CHR ''.'') (rev filename))
      in if CHR ''.'' \<in> set filename \<and> ext \<noteq> [] \<and> list_all is_word_char ext
         then ''image/'' @ ext else ''image/jpeg'')"

definition predict_error :: js_error where
  "predict_error = Error ''Failed to predict food. Please try again.''"

text \<open>
  The form data of the request. On the web the image is fetched and read as a blob first,
  and either step can reject; both are inputs of the model.
\<close>

definition build_form_data ::
  "platform \<Rightarrow> (string \<Rightarrow> string settled) \<Rightarrow> (string \<Rightarrow> string settled) \<Rightarrow>
   string \<Rightarrow> bool \<Rightarrow> failure + form_data" where
  "build_form_data os fetch blob imageUri isBase64 =
     (if isBase64 then Inr (ImageBase64 imageUri)
      else
        let filename = filename_of imageUri;
            type = mime_type_of filename
        in if os = Web
           then (case fetch imageUri of
                   Rejected e \<Rightarrow> Inl e
                 | Fulfilled resp \<Rightarrow>
                     (case blob resp of
                        Rejected e \<Rightarrow> Inl e
                      | Fulfilled b \<Rightarrow> Inr (ImageBlob b filename)))
           else Inr (ImageFile imageUri filename type))"

text \<open>
  \<^verbatim>\<open>predictFood\<close>: everything happens inside one \<^verbatim>\<open>try\<close>, whose \<^verbatim>\<open>catch\<close>
  throws a new error with a fixed message.
\<close>

definition predictFood ::
  "platform \<Rightarrow> (string \<Rightarrow> string settled) \<Rightarrow> (string \<Rightarrow> string settled) \<Rightarrow>
   (string \<Rightarrow> form_data \<Rightarrow> response settled) \<Rightarrow> string \<Rightarrow> bool \<Rightarrow> js_error + json" where
  "predictFood os fetch blob post imageUri isBase64 =
     (case build_form_data os fetch blob imageUri isBase64 of
        Inl e \<Rightarrow> Inl predict_error
      | Inr formData \<Rightarrow>
          (case post ''/predict'' formData of
             Fulfilled result \<Rightarrow> Inr (data result)
           | Rejected e \<Rightarrow> Inl predict_error))"

section \<open>Nutrition context\<close>

record UserProfile =
  weight_kg :: js_number
  height_cm :: js_number
  age :: js_number
  gender :: gender
  activity_level :: string
  bmr :: js_number
  tdee :: js_number
  goal :: goal

text \<open>
  \<open>MealDraft\<close> is \<^verbatim>\<open>Omit<MealLogEntry, 'id'>\<close>, the argument of \<^verbatim>\<open>addMeal\<close>;
  a \<open>MealLogEntry\<close> adds the id (the field \<^verbatim>\<open>id\<close> of the source).
\<close>

record MealDraft =
  date :: string
  time :: string
  food_label :: string
  calories :: js_number
  quantity :: js_number
  unit :: string

record MealLogEntry = MealDraft +
  meal_id :: string

record DailySummary =
  summary_date :: string
  total_calories :: js_number
  total_protein :: js_number
  total_carbs :: js_number
  total_fats :: js_number
  summary_meals :: "MealLogEntry list"

text \<open>
  The provider's state: the two React state cells and, behind them, the two records of
  the durable store under \<^verbatim>\<open>@nutrivision_profile\<close> and \<^verbatim>\<open>@nutrivision_meals\<close>.
  Every operation reads the cells as they are when it is called, one call after the other.
\<close>

record NutritionState =
  profile :: "UserProfile option"
  meals :: "MealLogEntry list"
  stored_profile :: "UserProfile option"
  stored_meals :: "MealLogEntry list option"

text \<open>What \<^verbatim>\<open>AsyncStorage.setItem\<close> settles to is an input of the model.\<close>

datatype write_outcome = Written | WriteFailed string

text \<open>
  \<^verbatim>\<open>Date.now().toString()\<close>: the clock's milliseconds, a natural number, in decimal.
\<close>

definition digit_char :: "nat \<Rightarrow> char" where
  "digit_char d = char_of (48 + d)"

fun toString :: "nat \<Rightarrow> string" where
  "toString n = (if n < 10 then [digit_char n] else toString (n div 10) @ [digit_char (n mod 10)])"

declare toString.simps [simp del]

definition setProfile ::
  "NutritionState \<Rightarrow> UserProfile \<Rightarrow> write_outcome \<Rightarrow> NutritionState \<times> (string + unit)" where
  "setProfile st newProfile w =
     (let st1 = st\<lparr>profile := Some newProfile\<rparr>
      in case w of
           Written \<Rightarrow> (st1\<lparr>stored_profile := Some newProfile\<rparr>, Inr ())
         | WriteFailed e \<Rightarrow> (st1, Inl e))"

definition addMeal ::
  "NutritionState \<Rightarrow> MealDraft \<Rightarrow> nat \<Rightarrow> write_outcome \<Rightarrow> NutritionState \<times> (string + unit)" where
  "addMeal st meal now w =
     (let newMeal = MealDraft.extend meal (MealLogEntry.fields (toString now));
          updatedMeals = meals st @ [newMeal];
          st1 = st\<lparr>meals := updatedMeals\<rparr>
      in case w of
           Written \<Rightarrow> (st1\<lparr>stored_meals := Some updatedMeals\<rparr>, Inr ())
         | WriteFailed e \<Rightarrow> (st1, Inl e))"

definition removeMeal ::
  "NutritionState \<Rightarrow> string \<Rightarrow> write_outcome \<Rightarrow> NutritionState \<times> (string + unit)" where
  "removeMeal st mealId w =
     (let updatedMeals = filter (\<lambda>meal. meal_id meal \<noteq> mealId) (meals st);
          st1 = st\<lparr>meals := updatedMeals\<rparr>
      in case w of
           Written \<Rightarrow> (st1\<lparr>stored_meals := Some updatedMeals\<rparr>, Inr ())
         | WriteFailed e \<Rightarrow> (st1, Inl e))"

text \<open>
  \<^verbatim>\<open>today\<close> is the calendar date the clock gives when the function runs,
  \<^verbatim>\<open>new Date().toISOString().split('T')[0]\<close>.
\<close>

definition getTodaysMeals :: "NutritionState \<Rightarrow> string \<Rightarrow> MealLogEntry list" where
  "getTodaysMeals st today = filter (\<lambda>meal. date meal = today) (meals st)"

text \<open>
  \<^verbatim>\<open>getTodaysSummary\<close> reads the clock itself and then calls \<^verbatim>\<open>getTodaysMeals\<close>,
  which reads it again: \<open>today\<close> is the first reading, \<open>today_meals\<close> the second.
\<close>

definition getTodaysSummary :: "NutritionState \<Rightarrow> string \<Rightarrow> string \<Rightarrow> DailySummary" where
  "getTodaysSummary st today today_meals =
     (let todaysMeals = getTodaysMeals st today_meals;
          totalCalories = foldl (\<lambda>sum meal. js_add sum (calories meal)) (lit 0) todaysMeals;
          totalProtein = Math_round (js_div (js_mul totalCalories (lit 0.3)) (lit 4));
          totalCarbs = Math_round (js_div (js_mul totalCalories (lit 0.45)) (lit 4));
          totalFats = Math_round (js_div (js_mul totalCalories (lit 0.25)) (lit 9))
      in \<lparr>summary_date = today,
          total_calories = totalCalories,
          total_protein = totalProtein,
          total_carbs = totalCarbs,
          total_fats = totalFats,
          summary_meals = todaysMeals\<rparr>)"

text \<open>A run of the ledger: appends, each with its clock reading, and removals.\<close>

datatype ledger_op =
    Append MealDraft nat write_outcome
  | Remove string write_outcome

fun apply_op :: "NutritionState \<Rightarrow> ledger_op \<Rightarrow> NutritionState" where
  "apply_op st (Append meal now w) = fst (addMeal st meal now w)"
| "apply_op st (Remove mealId w) = fst (removeMeal st mealId w)"

definition run :: "NutritionState \<Rightarrow> ledger_op list \<Rightarrow> NutritionState" where
  "run st ops = foldl apply_op st ops"

fun append_times :: "ledger_op list \<Rightarrow> nat list" where
  "append_times [] = []"
| "append_times (Append meal now w # ops) = now # append_times ops"
| "append_times (Remove mealId w # ops) = append_times ops"

definition initial_state :: NutritionState where
  "initial_state = \<lparr>profile = None, meals = [], stored_profile = None, stored_meals = None\<rparr>"

section \<open>Notions used in the statements\<close>

text \<open>Two strings differ only in letter case: same length, and unit by unit the same letter.\<close>

definition same_letter :: "char \<Rightarrow> char \<Rightarrow> bool" where
  "same_letter c d = (toLowerCase_char c = toLowerCase_char d)"

definition differs_only_in_case :: "string \<Rightarrow> string \<Rightarrow> bool" where
  "differs_only_in_case s t = list_all2 same_letter s t"

text \<open>Reading a decimal string back, to show that \<open>toString\<close> loses nothing.\<close>

definition digit_value :: "char \<Rightarrow> nat" where
  "digit_value c = of_char c - 48"

definition decimal_value :: "string \<Rightarrow> nat" where
  "decimal_value s = foldl (\<lambda>a c. 10 * a + digit_value c) 0 s"

text \<open>Services that always answer the same way, for the concrete runs below.\<close>

definition rejects :: "failure \<Rightarrow> 'b \<Rightarrow> 'a settled" where
  "rejects e x = Rejected e"

definition post_resolves :: "response \<Rightarrow> string \<Rightarrow> 'b \<Rightarrow> response settled" where
  "post_resolves r url body = Fulfilled r"

definition post_rejects :: "failure \<Rightarrow> string \<Rightarrow> 'b \<Rightarrow> response settled" where
  "post_rejects e url body = Rejected e"

definition example_meal :: MealDraft where
  "example_meal =
     \<lparr>date = ''2024-05-01'', time = ''12:30'', food_label = ''pizza'',
      calories = Num 266, quantity = Num 1, unit = ''slice''\<rparr>"

definition example_state :: NutritionState where
  "example_state = fst (addMeal initial_state example_meal 1714564800000 Written)"

text \<open>
  The rational a finite number denotes, whole numbers from zero up, and the sum of the
  calories of a list of entries in exact arithmetic.
\<close>

definition value_of :: "js_number \<Rightarrow> rat" where
  "value_of x = (case x of Num r \<Rightarrow> r | _ \<Rightarrow> 0)"

definition is_whole_number :: "js_number \<Rightarrow> bool" where
  "is_whole_number x = (case x of Num r \<Rightarrow> 0 \<le> r \<and> of_int \<lfloor>r\<rfloor> = r | _ \<Rightarrow> False)"

definition exact_total :: "MealLogEntry list \<Rightarrow> rat" where
  "exact_total ms = sum_list (map (\<lambda>m. value_of (calories m)) ms)"

text \<open>A ledger as it may be loaded from the store, given by its entries.\<close>

definition entry_with :: "js_number \<Rightarrow> string \<Rightarrow> MealLogEntry" where
  "entry_with c i =
     \<lparr>date = ''2024-05-01'', time = ''12:30'', food_label = ''pizza'',
      calories = c, quantity = Num 1, unit = ''slice'', meal_id = i\<rparr>"

definition state_with :: "MealLogEntry list \<Rightarrow> NutritionState" where
  "state_with ms = \<lparr>profile = None, meals = ms, stored_profile = None, stored_meals = Some ms\<rparr>"

section \<open>Properties of the number model\<close>

subsection \<open>Exponent and rounding\<close>

lemma bitlen_pos: "0 < n \<Longrightarrow> 1 \<le> bitlen n"
  using bitlen_eq_zero_iff [of n] bitlen_nonneg [of n] by linarith

lemma pow2_nonneg: "0 \<le> b \<Longrightarrow> (2::rat) powi b = 2 ^ nat b"
  by (simp add: power_int_def)

lemma pow2_neg: "0 \<le> b \<Longrightarrow> (2::rat) powi (- b) = 1 / 2 ^ nat b"
  by (simp only: power_int_minus_divide pow2_nonneg)

lemma exponent_of_lower:
  assumes "0 < x"
  shows "2 powi exponent_of x \<le> x"
proof (cases "1 \<le> x")
  case True
  define n where "n = \<lfloor>x\<rfloor>"
  from True have n: "0 < n" by (simp add: n_def)
  from bitlen_bounds [OF n] have "(2::int) ^ nat (bitlen n - 1) \<le> n" by simp
  then have "(of_int ((2::int) ^ nat (bitlen n - 1)) :: rat) \<le> of_int n"
    by (simp only: of_int_le_iff)
  also have "\<dots> \<le> x" by (simp add: n_def)
  finally have "(2::rat) ^ nat (bitlen n - 1) \<le> x" by simp
  moreover from bitlen_pos [OF n] have "(2::rat) powi (bitlen n - 1) = 2 ^ nat (bitlen n - 1)"
    by (simp add: power_int_def)
  ultimately show ?thesis using True by (simp add: exponent_of_def n_def)
next
  case False
  define m where "m = \<lceil>1 / x\<rceil>"
  from False assms have "1 < 1 / x" by simp
  then have m: "0 < m - 1" by (simp add: m_def)
  define b where "b = bitlen (m - 1)"
  from bitlen_bounds [OF m] have "m - 1 < 2 ^ nat b" by (simp add: b_def)
  then have "m \<le> 2 ^ nat b" by simp
  then have "(of_int m :: rat) \<le> of_int (2 ^ nat b)" by (simp only: of_int_le_iff)
  then have "(of_int m :: rat) \<le> 2 ^ nat b" by simp
  moreover have "1 / x \<le> of_int m" by (simp add: m_def)
  ultimately have "1 / x \<le> 2 ^ nat b" by linarith
  with assms have "1 / 2 ^ nat b \<le> x"
    by (simp add: field_simps)
  moreover from bitlen_nonneg [of "m - 1"] have "(2::rat) powi (- b) = 1 / 2 ^ nat b"
    unfolding b_def by (rule pow2_neg)
  ultimately show ?thesis using False by (simp add: exponent_of_def m_def b_def)
qed

lemma exponent_of_upper:
  assumes "0 < x"
  shows "x < 2 powi (exponent_of x + 1)"
proof (cases "1 \<le> x")
  case True
  define n where "n = \<lfloor>x\<rfloor>"
  from True have n: "0 < n" by (simp add: n_def)
  from bitlen_bounds [OF n] have "n + 1 \<le> 2 ^ nat (bitlen n)" by simp
  then have "(of_int (n + 1) :: rat) \<le> of_int (2 ^ nat (bitlen n))" by (simp only: of_int_le_iff)
  then have "(of_int n :: rat) + 1 \<le> 2 ^ nat (bitlen n)" by simp
  moreover have "x < of_int n + 1" using floor_correct [of x] by (simp add: n_def)
  ultimately have "x < 2 ^ nat (bitlen n)" by linarith
  moreover from bitlen_nonneg [of n] have "(2::rat) powi (bitlen n) = 2 ^ nat (bitlen n)"
    by (simp add: power_int_def)
  ultimately show ?thesis using True by (simp add: exponent_of_def n_def)
next
  case False
  define m where "m = \<lceil>1 / x\<rceil>"
  from False assms have "1 < 1 / x" by simp
  then have m: "0 < m - 1" by (simp add: m_def)
  define b where "b = bitlen (m - 1)"
  have b: "1 \<le> b" unfolding b_def by (rule bitlen_pos [OF m])
  from bitlen_bounds [OF m] have "2 ^ nat (b - 1) \<le> m - 1" by (simp add: b_def)
  then have "(of_int (2 ^ nat (b - 1)) :: rat) \<le> of_int (m - 1)" by (simp only: of_int_le_iff)
  then have "(2::rat) ^ nat (b - 1) \<le> of_int m - 1" by simp
  moreover have "of_int m - 1 < 1 / x" unfolding m_def by linarith
  ultimately have "(2::rat) ^ nat (b - 1) < 1 / x" by linarith
  with assms have "x * 2 ^ nat (b - 1) < 1" by (simp add: field_simps)
  then have "x < 1 / 2 ^ nat (b - 1)" by (simp add: field_simps)
  moreover from b have "(2::rat) powi (- b + 1) = 1 / 2 ^ nat (b - 1)"
    using pow2_neg [of "b - 1"] by simp
  ultimately show ?thesis using False by (simp add: exponent_of_def m_def b_def)
qed


lemma pow2_less_imp_less:
  assumes "(2::rat) powi e < 2 powi N"
  shows "e < N"
proof (rule ccontr)
  assume "\<not> e < N"
  then have "N \<le> e" by simp
  then have "(2::rat) powi N \<le> 2 powi e" by (rule power_int_increasing) simp
  with assms show False by simp
qed

lemma pow2_pos: "0 < (2::rat) powi k"
  by (simp add: zero_less_power_int)

lemma round_half_even_of_int: "round_half_even (of_int n) = n"
  by (simp add: round_half_even_def)

lemma quantum_le:
  assumes "x = of_int k * 2 powi j" and "x \<noteq> 0" and "\<bar>k\<bar> < 2 ^ 53" and "- 1074 \<le> j"
  shows "max (exponent_of \<bar>x\<bar>) (- 1022) - 52 \<le> j"
proof -
  from assms(2) have pos: "0 < \<bar>x\<bar>" by simp
  have "(of_int \<bar>k\<bar> :: rat) < of_int (2 ^ 53)" using assms(3) by (simp only: of_int_less_iff)
  then have k: "\<bar>of_int k :: rat\<bar> < 2 powi 53" by simp
  have "2 powi exponent_of \<bar>x\<bar> \<le> \<bar>x\<bar>" by (rule exponent_of_lower [OF pos])
  also have "\<bar>x\<bar> = \<bar>of_int k\<bar> * 2 powi j"
    by (simp add: assms(1) abs_mult power_int_abs)
  also have "\<dots> < 2 powi 53 * 2 powi j"
    using k pow2_pos [of j] by (rule mult_strict_right_mono)
  also have "\<dots> = 2 powi (53 + j)" by (simp add: power_int_add)
  finally have "exponent_of \<bar>x\<bar> < 53 + j" by (rule pow2_less_imp_less)
  with assms(4) show ?thesis by simp
qed

lemma to_double_exact:
  assumes "x = of_int k * 2 powi j" and "\<bar>k\<bar> < 2 ^ 53" and "- 1074 \<le> j" and "\<bar>x\<bar> < 2 ^ 1024"
  shows "to_double x = Num x"
proof (cases "x = 0")
  case True
  then show ?thesis by (simp add: to_double_def)
next
  case False
  define q where "q = max (exponent_of \<bar>x\<bar>) (- 1022) - 52"
  from quantum_le [OF assms(1) False assms(2,3)] have q: "q \<le> j" by (simp add: q_def)
  have "x / 2 powi q = of_int k * (2 powi j / 2 powi q)" by (simp add: assms(1))
  also have "2 powi j / 2 powi q = (2::rat) powi (j - q)" by (simp add: power_int_diff)
  also from q have "\<dots> = 2 ^ nat (j - q)" by (simp add: pow2_nonneg)
  finally have "x / 2 powi q = of_int (k * 2 ^ nat (j - q))" by simp
  then have "round_half_even (x / 2 powi q) = k * 2 ^ nat (j - q)"
    by (simp only: round_half_even_of_int)
  then have "of_int (round_half_even (x / 2 powi q)) * 2 powi q = (x / 2 powi q) * 2 powi q"
    using \<open>x / 2 powi q = of_int (k * 2 ^ nat (j - q))\<close> by simp
  also have "\<dots> = x" using pow2_pos [of q] by simp
  finally have r: "of_int (round_half_even (x / quantum x)) * quantum x = x"
    by (simp add: quantum_def q_def)
  from False assms(4) show ?thesis
    by (simp add: to_double_def Let_def r)
qed

lemma to_double_int:
  assumes "\<bar>k\<bar> < 2 ^ 53"
  shows "to_double (of_int k) = Num (of_int k)"
proof (rule to_double_exact [where k = k and j = 0])
  show "(of_int k :: rat) = of_int k * 2 powi 0" by simp
  show "\<bar>k\<bar> < 2 ^ 53" by (rule assms)
  show "- 1074 \<le> (0::int)" by simp
  have "(of_int \<bar>k\<bar> :: rat) < of_int (2 ^ 53)" using assms by (simp only: of_int_less_iff)
  then have "\<bar>of_int k :: rat\<bar> < 2 ^ 53" by simp
  also have "(2::rat) ^ 53 < 2 ^ 1024" by simp
  finally show "\<bar>of_int k :: rat\<bar> < 2 ^ 1024" .
qed

lemma to_double_quarters:
  assumes "\<bar>k\<bar> < 2 ^ 53"
  shows "to_double (of_int k / 4) = Num (of_int k / 4)"
proof (rule to_double_exact [where k = k and j = "- 2"])
  show "(of_int k / 4 :: rat) = of_int k * 2 powi (- 2)" by (simp add: power_int_minus_divide)
  show "\<bar>k\<bar> < 2 ^ 53" by (rule assms)
  show "- 1074 \<le> (- 2::int)" by simp
  have "(of_int \<bar>k\<bar> :: rat) < of_int (2 ^ 53)" using assms by (simp only: of_int_less_iff)
  then have "\<bar>of_int k :: rat\<bar> < 2 ^ 53" by simp
  then have "\<bar>of_int k / 4 :: rat\<bar> < 2 ^ 53" by simp
  also have "(2::rat) ^ 53 < 2 ^ 1024" by simp
  finally show "\<bar>of_int k / 4 :: rat\<bar> < 2 ^ 1024" .
qed

lemma exponent_of_unique:
  assumes "2 powi e \<le> x" and "x < 2 powi (e + 1)"
  shows "exponent_of x = e"
proof -
  have "0 < (2::rat) powi e" by (rule pow2_pos)
  with assms(1) have pos: "0 < x" by linarith
  from exponent_of_lower [OF pos] assms(2) have "(2::rat) powi exponent_of x < 2 powi (e + 1)"
    by simp
  then have a: "exponent_of x < e + 1" by (rule pow2_less_imp_less)
  from assms(1) exponent_of_upper [OF pos] have "(2::rat) powi e < 2 powi (exponent_of x + 1)"
    by simp
  then have "e < exponent_of x + 1" by (rule pow2_less_imp_less)
  with a show ?thesis by simp
qed

lemma round_half_even_nearest:
  assumes "\<bar>y - of_int m\<bar> < 1 / 2 \<or> (\<bar>y - of_int m\<bar> = 1 / 2 \<and> even m)"
  shows "round_half_even y = m"
proof (cases "of_int m \<le> y")
  case True
  with assms have "y < of_int m + 1" by auto
  with True have f: "\<lfloor>y\<rfloor> = m" by (simp add: floor_unique)
  from assms True show ?thesis by (auto simp: round_half_even_def f Let_def)
next
  case False
  with assms have "of_int (m - 1) \<le> y" by auto
  moreover from False have "y < of_int (m - 1) + 1" by simp
  ultimately have f: "\<lfloor>y\<rfloor> = m - 1" by (rule floor_unique)
  from assms False show ?thesis by (auto simp: round_half_even_def f Let_def)
qed

lemma to_double_nearest:
  assumes "- 1022 \<le> e" and "e \<le> 1022"
    and "2 powi e \<le> \<bar>x\<bar>" and "\<bar>x\<bar> < 2 powi (e + 1)"
    and "\<bar>x - of_int m * 2 powi (e - 52)\<bar> < 2 powi (e - 52) / 2
         \<or> (\<bar>x - of_int m * 2 powi (e - 52)\<bar> = 2 powi (e - 52) / 2 \<and> even m)"
  shows "to_double x = Num (of_int m * 2 powi (e - 52))"
proof -
  define u :: rat where "u = 2 powi (e - 52)"
  have u: "0 < u" unfolding u_def by (rule pow2_pos)
  from assms(3) pow2_pos [of e] have "0 < \<bar>x\<bar>" by linarith
  then have nz: "x \<noteq> 0" by simp
  have "exponent_of \<bar>x\<bar> = e" using assms(3,4) by (rule exponent_of_unique)
  with assms(1) have q: "quantum x = u" by (simp add: quantum_def u_def)
  have "x / u - of_int m = (x - of_int m * u) / u"
    using u by (simp add: field_simps)
  then have "\<bar>x / u - of_int m\<bar> = \<bar>x - of_int m * u\<bar> / u"
    by (simp only: abs_divide abs_of_pos [OF u])
  with assms(5) u have "\<bar>x / u - of_int m\<bar> < 1 / 2 \<or> (\<bar>x / u - of_int m\<bar> = 1 / 2 \<and> even m)"
    by (auto simp: u_def[symmetric] field_simps)
  then have r: "round_half_even (x / u) = m" by (rule round_half_even_nearest)
  define p where "p = of_int m * u"
  from assms(5) have "\<bar>x - p\<bar> \<le> u / 2"
    unfolding u_def [symmetric] p_def [symmetric] by linarith
  then have "\<bar>p\<bar> \<le> \<bar>x\<bar> + u / 2" by linarith
  also have "\<dots> < 2 powi (e + 1) + u / 2" using assms(4) by simp
  also have "u / 2 \<le> 2 powi (e + 1)"
  proof -
    have "u \<le> 2 powi (e + 1)" unfolding u_def by (rule power_int_increasing) simp_all
    with u show ?thesis by simp
  qed
  also have "(2::rat) powi (e + 1) + 2 powi (e + 1) = 2 powi (e + 2)"
    by (simp add: power_int_add)
  also have "(2::rat) powi (e + 2) \<le> 2 powi 1024"
    using assms(2) by (intro power_int_increasing) simp_all
  finally have "\<bar>of_int m * u\<bar> < 2 ^ 1024" by (simp add: p_def)
  with nz show ?thesis by (simp add: to_double_def Let_def q r u_def[symmetric])
qed

subsection \<open>The operations on finite numbers\<close>

lemma js_add_Num: "js_add (Num a) (Num b) = to_double (a + b)"
  by (simp add: js_add_def)

lemma js_sub_Num: "js_sub (Num a) (Num b) = to_double (a - b)"
  by (simp add: js_sub_def js_neg_def js_add_def)

lemma js_mul_Num: "js_mul (Num a) (Num b) = to_double (a * b)"
  by (simp add: js_mul_def)

lemma js_div_Num: "b \<noteq> 0 \<Longrightarrow> js_div (Num a) (Num b) = to_double (a / b)"
  by (simp add: js_div_def)

lemma Math_round_Num: "Math_round (Num r) = Num (of_int (round r))"
  by (simp add: Math_round_def round_def)

lemma Math_round_nearest:
  assumes "of_int n - 1 / 2 \<le> r" and "r < of_int n + 1 / 2"
  shows "Math_round (Num r) = Num (of_int n)"
proof -
  from assms have "\<lfloor>r + 1 / 2\<rfloor> = n" by (intro floor_unique) simp_all
  then show ?thesis by (simp add: Math_round_def)
qed

lemma lit_values:
  "lit 0 = Num 0" "lit 4 = Num 4" "lit 5 = Num 5" "lit 9 = Num 9" "lit 10 = Num 10"
  "lit 78 = Num 78" "lit 161 = Num 161"
  using to_double_int [of 4] to_double_int [of 5] to_double_int [of 9] to_double_int [of 10]
    to_double_int [of 78] to_double_int [of 161]
  by (simp_all add: lit_def to_double_def)

lemma lit_quarter_values: "lit (25 / 4) = Num (25 / 4)" "lit (1 / 4) = Num (1 / 4)"
  using to_double_quarters [of 25] to_double_quarters [of 1] by (simp_all add: lit_def)

subsection \<open>The roundings of the concrete runs\<close>

text \<open>
  Each value is given with the exponent of the exact result and the multiple of the
  quantum nearest to it.
\<close>

lemma lit_0_1: "lit (1 / 10) = Num (3602879701896397 / 36028797018963968)"
  using to_double_nearest [where e = "- 4" and m = 7205759403792794 and x = "1 / 10"]
  by (simp add: lit_def)

lemma lit_0_2: "lit (1 / 5) = Num (3602879701896397 / 18014398509481984)"
  using to_double_nearest [where e = "- 3" and m = 7205759403792794 and x = "1 / 5"]
  by (simp add: lit_def)

lemma lit_0_3: "lit (3 / 10) = Num (5404319552844595 / 18014398509481984)"
  using to_double_nearest [where e = "- 2" and m = 5404319552844595 and x = "3 / 10"]
  by (simp add: lit_def)

lemma lit_0_45: "lit (9 / 20) = Num (8106479329266893 / 18014398509481984)"
  using to_double_nearest [where e = "- 2" and m = 8106479329266893 and x = "9 / 20"]
  by (simp add: lit_def)

lemma lit_1_2: "lit (6 / 5) = Num (5404319552844595 / 4503599627370496)"
  using to_double_nearest [where e = "0" and m = 5404319552844595 and x = "6 / 5"]
  by (simp add: lit_def)

lemma lit_1_375: "lit (11 / 8) = Num (11 / 8)"
  using to_double_nearest [where e = "0" and m = 6192449487634432 and x = "11 / 8"]
  by (simp add: lit_def)

lemma lit_1_55: "lit (31 / 20) = Num (6980579422424269 / 4503599627370496)"
  using to_double_nearest [where e = "0" and m = 6980579422424269 and x = "31 / 20"]
  by (simp add: lit_def)

lemma lit_1_725: "lit (69 / 40) = Num (3884354678607053 / 2251799813685248)"
  using to_double_nearest [where e = "0" and m = 7768709357214106 and x = "69 / 40"]
  by (simp add: lit_def)

lemma lit_1_9: "lit (19 / 10) = Num (4278419646001971 / 2251799813685248)"
  using to_double_nearest [where e = "0" and m = 8556839292003942 and x = "19 / 10"]
  by (simp add: lit_def)

lemma lit_72_88: "lit (1822 / 25) = Num (641059259458519 / 8796093022208)"
  using to_double_nearest [where e = "6" and m = 5128474075668152 and x = "1822 / 25"]
  by (simp add: lit_def)

lemma lit_142_8: "lit (714 / 5) = Num (2512164167142605 / 17592186044416)"
  using to_double_nearest [where e = "7" and m = 5024328334285210 and x = "714 / 5"]
  by (simp add: lit_def)

lemma lit_28_56: "lit (714 / 25) = Num (8038925334856335 / 281474976710656)"
  using to_double_nearest [where e = "4" and m = 8038925334856335 and x = "714 / 25"]
  by (simp add: lit_def)

lemma lit_113_3: "lit (11333333333333333 / 100000000000000) = Num (7975124340135253 / 70368744177664)"
  using to_double_nearest [where e = "6" and m = 7975124340135253 and x = "11333333333333333 / 100000000000000"]
  by (simp add: lit_def)

lemma bmr_step_1: "to_double (3205296297292595 / 4398046511104) = Num (3205296297292595 / 4398046511104)"
  using to_double_nearest [where e = "9" and m = 6410592594585190 and x = "3205296297292595 / 4398046511104"]
  by simp

lemma bmr_step_2: "to_double (62804104178565125 / 70368744177664) = Num (7850513022320641 / 8796093022208)"
  using to_double_nearest [where e = "9" and m = 7850513022320641 and x = "62804104178565125 / 70368744177664"]
  by simp

lemma bmr_step_3: "to_double (14261105616905831 / 8796093022208) = Num (1782638202113229 / 1099511627776)"
  using to_double_nearest [where e = "10" and m = 7130552808452916 and x = "14261105616905831 / 8796093022208"]
  by simp

lemma bmr_step_4: "to_double (40194626674281675 / 281474976710656) = Num (5024328334285209 / 35184372088832)"
  using to_double_nearest [where e = "7" and m = 5024328334285209 and x = "40194626674281675 / 281474976710656"]
  by simp

lemma bmr_step_5: "to_double (52020094133338119 / 35184372088832) = Num (6502511766667265 / 4398046511104)"
  using to_double_nearest [where e = "10" and m = 6502511766667265 and x = "52020094133338119 / 35184372088832"]
  by simp

lemma bmr_step_6: "to_double (5794426278379521 / 4398046511104) = Num (5794426278379521 / 4398046511104)"
  using to_double_nearest [where e = "10" and m = 5794426278379521 and x = "5794426278379521 / 4398046511104"]
  by simp

lemma sum_step_1: "to_double (3602879701896397 / 36028797018963968) = Num (3602879701896397 / 36028797018963968)"
  using to_double_nearest [where e = "- 4" and m = 7205759403792794 and x = "3602879701896397 / 36028797018963968"]
  by simp

lemma sum_step_2: "to_double (10808639105689191 / 36028797018963968) = Num (1351079888211149 / 4503599627370496)"
  using to_double_nearest [where e = "- 2" and m = 5404319552844596 and x = "10808639105689191 / 36028797018963968"]
  by simp

lemma sum_step_3: "to_double (7975124340135253 / 70368744177664) = Num (7975124340135253 / 70368744177664)"
  using to_double_nearest [where e = "6" and m = 7975124340135253 and x = "7975124340135253 / 70368744177664"]
  by simp

lemma sum_step_4: "to_double (43100120407759796254423190007535 / 1267650600228229401496703205376) = Num (34)"
  using to_double_nearest [where e = "5" and m = 4785074604081152 and x = "43100120407759796254423190007535 / 1267650600228229401496703205376"]
  by simp

lemma sum_step_5: "to_double (17 / 2) = Num (17 / 2)"
  using to_double_nearest [where e = "3" and m = 4785074604081152 and x = "17 / 2"]
  by simp

lemma tdee_step_1: "to_double (1215971899390033875 / 562949953421312) = Num (2160)"
  using to_double_nearest [where e = "11" and m = 4749890231992320 and x = "1215971899390033875 / 562949953421312"]
  by simp

lemma tdee_step_2: "to_double (2475) = Num (2475)"
  using to_double_nearest [where e = "11" and m = 5442582557491200 and x = "2475"]
  by simp

lemma tdee_step_3: "to_double (12599945857475805545 / 4503599627370496) = Num (11191 / 4)"
  using to_double_nearest [where e = "11" and m = 6152317313220608 and x = "12599945857475805545 / 4503599627370496"]
  by simp


section \<open>Properties of the nutrition logic\<close>

lemma same_lower:
  "differs_only_in_case s t \<Longrightarrow> toLowerCase s = toLowerCase t"
  unfolding differs_only_in_case_def toLowerCase_def
  by (induction rule: list_all2_induct) (simp_all add: same_letter_def)

lemma getNutritionInfo_lower:
  "toLowerCase s = toLowerCase t \<Longrightarrow> getNutritionInfo s = getNutritionInfo t"
  by (simp add: getNutritionInfo_def normalize_key_def)

lemma pizza_fact: "getNutritionInfo ''pizza'' = NutritionInfo 266 ''slice''"
  by code_simp

text \<open>
  C1, as the code has it: every spelling of \<^verbatim>\<open>pizza\<close> that differs from it only in
  letter case resolves to 266 calories per \<^verbatim>\<open>slice\<close>.
\<close>

theorem getNutritionInfo_pizza_case:
  assumes "differs_only_in_case s ''pizza''"
  shows "getNutritionInfo s = NutritionInfo 266 ''slice''"
  using getNutritionInfo_lower [OF same_lower [OF assms]] pizza_fact by simp

theorem getNutritionInfo_pizza_case_witness:
  "differs_only_in_case ''PIZZA'' ''pizza''
   \<and> getNutritionInfo ''PIZZA'' = NutritionInfo 266 ''slice''"
proof -
  have h: "differs_only_in_case ''PIZZA'' ''pizza''" by code_simp
  from getNutritionInfo_pizza_case [OF h] h show ?thesis by simp
qed

text \<open>
  C1 as stated fails: the unit of \<^verbatim>\<open>pizza\<close> is not \<^verbatim>\<open>slice (100g)\<close>, and a trailing
  space becomes an underscore, so \<^verbatim>\<open>'pizza '\<close> is looked up as \<^verbatim>\<open>pizza_\<close> and does
  not resolve to what \<^verbatim>\<open>'pizza'\<close> resolves to.
\<close>

theorem getNutritionInfo_pizza_counterexample:
  "getNutritionInfo ''pizza'' \<noteq> NutritionInfo 266 ''slice (100g)''
   \<and> getNutritionInfo ''PIZZA'' \<noteq> NutritionInfo 266 ''slice (100g)''
   \<and> getNutritionInfo ''pizza '' \<noteq> NutritionInfo 266 ''slice (100g)''
   \<and> getNutritionInfo ''pizza '' \<noteq> getNutritionInfo ''pizza''"
  by code_simp

lemma lit_quarters:
  "lit 10 = Num (of_int 40 / 4)" "lit 6.25 = Num (of_int 25 / 4)" "lit 5 = Num (of_int 20 / 4)"
  "lit 161 = Num (of_int 644 / 4)" "lit 78 = Num (of_int 312 / 4)"
  by (simp_all add: lit_values lit_quarter_values)

lemma quarters_add:
  assumes "\<bar>a + b\<bar> < 2 ^ 53"
  shows "js_add (Num (of_int a / 4)) (Num (of_int b / 4)) = Num (of_int (a + b) / 4)"
proof -
  have e: "(of_int a / 4 + of_int b / 4 :: rat) = of_int (a + b) / 4" by simp
  show ?thesis by (simp only: js_add_Num e to_double_quarters [OF assms])
qed

lemma quarters_sub:
  assumes "\<bar>a - b\<bar> < 2 ^ 53"
  shows "js_sub (Num (of_int a / 4)) (Num (of_int b / 4)) = Num (of_int (a - b) / 4)"
proof -
  have e: "(of_int a / 4 - of_int b / 4 :: rat) = of_int (a - b) / 4"
    by (simp add: diff_divide_distrib)
  show ?thesis by (simp only: js_sub_Num e to_double_quarters [OF assms])
qed

lemma quarters_mul:
  assumes "\<bar>c * n\<bar> < 2 ^ 53"
  shows "js_mul (Num (of_int c / 4)) (Num (of_int n)) = Num (of_int (c * n) / 4)"
proof -
  have e: "(of_int c / 4 * of_int n :: rat) = of_int (c * n) / 4" by simp
  show ?thesis by (simp only: js_mul_Num e to_double_quarters [OF assms])
qed

lemma calculateBMR_shape:
  "calculateBMR Male w h a
     = js_add (js_sub (js_add (js_mul (lit 10) w) (js_mul (lit 6.25) h)) (js_mul (lit 5) a))
              (lit 5)"
  "calculateBMR Female w h a
     = js_sub (js_sub (js_add (js_mul (lit 10) w) (js_mul (lit 6.25) h)) (js_mul (lit 5) a))
              (lit 161)"
  "calculateBMR Other w h a
     = js_sub (js_sub (js_add (js_mul (lit 10) w) (js_mul (lit 6.25) h)) (js_mul (lit 5) a))
              (lit 78)"
  by (simp_all add: calculateBMR_def)

text \<open>
  On whole numbers of magnitude up to \<^verbatim>\<open>2^40\<close> every intermediate value of
  \<^verbatim>\<open>calculateBMR\<close> is a multiple of a quarter below \<^verbatim>\<open>2^51\<close>, so no operation
  rounds.
\<close>

lemma calculateBMR_base_whole:
  assumes "\<bar>i\<bar> \<le> 2 ^ 40" and "\<bar>j\<bar> \<le> 2 ^ 40" and "\<bar>k\<bar> \<le> 2 ^ 40"
  shows "js_sub (js_add (js_mul (lit 10) (Num (of_int i))) (js_mul (lit 6.25) (Num (of_int j))))
                (js_mul (lit 5) (Num (of_int k)))
           = Num (of_int (40 * i + 25 * j - 20 * k) / 4)"
proof -
  from assms have b: "\<bar>40 * i\<bar> < 2 ^ 53" "\<bar>25 * j\<bar> < 2 ^ 53" "\<bar>20 * k\<bar> < 2 ^ 53"
    "\<bar>40 * i + 25 * j\<bar> < 2 ^ 53" "\<bar>40 * i + 25 * j - 20 * k\<bar> < 2 ^ 53"
    by simp_all
  show ?thesis
    by (simp only: lit_quarters quarters_mul [OF b(1)] quarters_mul [OF b(2)]
          quarters_mul [OF b(3)] quarters_add [OF b(4)] quarters_sub [OF b(5)])
qed

lemma calculateBMR_whole:
  assumes "\<bar>i\<bar> \<le> 2 ^ 40" and "\<bar>j\<bar> \<le> 2 ^ 40" and "\<bar>k\<bar> \<le> 2 ^ 40"
  shows "calculateBMR Male (Num (of_int i)) (Num (of_int j)) (Num (of_int k))
           = Num (10 * of_int i + 6.25 * of_int j - 5 * of_int k + 5)"
    and "calculateBMR Female (Num (of_int i)) (Num (of_int j)) (Num (of_int k))
           = Num (10 * of_int i + 6.25 * of_int j - 5 * of_int k - 161)"
    and "calculateBMR Other (Num (of_int i)) (Num (of_int j)) (Num (of_int k))
           = Num (10 * of_int i + 6.25 * of_int j - 5 * of_int k - 78)"
proof -
  let ?n = "40 * i + 25 * j - 20 * k"
  from assms have b: "\<bar>?n + 20\<bar> < 2 ^ 53" "\<bar>?n - 644\<bar> < 2 ^ 53" "\<bar>?n - 312\<bar> < 2 ^ 53"
    by simp_all
  have "calculateBMR Male (Num (of_int i)) (Num (of_int j)) (Num (of_int k))
          = js_add (Num (of_int ?n / 4)) (lit 5)"
    by (simp only: calculateBMR_shape calculateBMR_base_whole [OF assms])
  also have "\<dots> = Num (of_int (?n + 20) / 4)"
    by (simp only: lit_quarters quarters_add [OF b(1)])
  finally show "calculateBMR Male (Num (of_int i)) (Num (of_int j)) (Num (of_int k))
           = Num (10 * of_int i + 6.25 * of_int j - 5 * of_int k + 5)" by simp
  have "calculateBMR Female (Num (of_int i)) (Num (of_int j)) (Num (of_int k))
          = js_sub (Num (of_int ?n / 4)) (lit 161)"
    by (simp only: calculateBMR_shape calculateBMR_base_whole [OF assms])
  also have "\<dots> = Num (of_int (?n - 644) / 4)"
    by (simp only: lit_quarters quarters_sub [OF b(2)])
  finally show "calculateBMR Female (Num (of_int i)) (Num (of_int j)) (Num (of_int k))
           = Num (10 * of_int i + 6.25 * of_int j - 5 * of_int k - 161)" by simp
  have "calculateBMR Other (Num (of_int i)) (Num (of_int j)) (Num (of_int k))
          = js_sub (Num (of_int ?n / 4)) (lit 78)"
    by (simp only: calculateBMR_shape calculateBMR_base_whole [OF assms])
  also have "\<dots> = Num (of_int (?n - 312) / 4)"
    by (simp only: lit_quarters quarters_sub [OF b(3)])
  finally show "calculateBMR Other (Num (of_int i)) (Num (of_int j)) (Num (of_int k))
           = Num (10 * of_int i + 6.25 * of_int j - 5 * of_int k - 78)" by simp
qed

text \<open>
  C5, as the code has it: \<^verbatim>\<open>calculateBMR\<close> is the base \<open>10 w + 6.25 h - 5 a\<close> plus 5
  for male, minus 161 for female, minus 78 otherwise, in double arithmetic: each product,
  sum and difference is rounded to the nearest double, and the result is not passed to
  \<^verbatim>\<open>Math.round\<close>. When weight, height and age are whole numbers of magnitude up to
  \<^verbatim>\<open>2^40\<close> no operation rounds and the result is the exact value of the formula; so it
  is for the three examples.
\<close>

theorem calculateBMR_double:
  "calculateBMR Male w h a
     = js_add (js_sub (js_add (js_mul (lit 10) w) (js_mul (lit 6.25) h)) (js_mul (lit 5) a))
              (lit 5)
   \<and> calculateBMR Female w h a
     = js_sub (js_sub (js_add (js_mul (lit 10) w) (js_mul (lit 6.25) h)) (js_mul (lit 5) a))
              (lit 161)
   \<and> calculateBMR Other w h a
     = js_sub (js_sub (js_add (js_mul (lit 10) w) (js_mul (lit 6.25) h)) (js_mul (lit 5) a))
              (lit 78)
   \<and> (\<bar>i\<bar> \<le> 2 ^ 40 \<and> \<bar>j\<bar> \<le> 2 ^ 40 \<and> \<bar>k\<bar> \<le> 2 ^ 40 \<longrightarrow>
        calculateBMR Male (Num (of_int i)) (Num (of_int j)) (Num (of_int k))
          = Num (10 * of_int i + 6.25 * of_int j - 5 * of_int k + 5)
        \<and> calculateBMR Female (Num (of_int i)) (Num (of_int j)) (Num (of_int k))
          = Num (10 * of_int i + 6.25 * of_int j - 5 * of_int k - 161)
        \<and> calculateBMR Other (Num (of_int i)) (Num (of_int j)) (Num (of_int k))
          = Num (10 * of_int i + 6.25 * of_int j - 5 * of_int k - 78))
   \<and> calculateBMR Male (Num 80) (Num 180) (Num 25) = Num 1805
   \<and> calculateBMR Female (Num 65) (Num 165) (Num 30) = Num 1370.25
   \<and> calculateBMR Other (Num 75) (Num 175) (Num 28) = Num 1625.75"
proof -
  have examples:
    "calculateBMR Male (Num 80) (Num 180) (Num 25) = Num 1805"
    "calculateBMR Female (Num 65) (Num 165) (Num 30) = Num 1370.25"
    "calculateBMR Other (Num 75) (Num 175) (Num 28) = Num 1625.75"
    using calculateBMR_whole(1) [of 80 180 25] calculateBMR_whole(2) [of 65 165 30]
      calculateBMR_whole(3) [of 75 175 28]
    by simp_all
  from calculateBMR_shape [of w h a] examples calculateBMR_whole [of i j k]
  show ?thesis by blast
qed

theorem calculateBMR_double_witness:
  "\<bar>70::int\<bar> \<le> 2 ^ 40 \<and> \<bar>175::int\<bar> \<le> 2 ^ 40 \<and> \<bar>30::int\<bar> \<le> 2 ^ 40
   \<and> calculateBMR Male (Num 70) (Num 175) (Num 30) = Num 1648.75
   \<and> calculateBMR Female (Num 70) (Num 175) (Num 30) = Num 1482.75
   \<and> calculateBMR Other (Num 70) (Num 175) (Num 30) = Num 1565.75"
proof -
  have h: "\<bar>70::int\<bar> \<le> 2 ^ 40 \<and> \<bar>175::int\<bar> \<le> 2 ^ 40 \<and> \<bar>30::int\<bar> \<le> 2 ^ 40" by simp
  note whole = calculateBMR_double
    [where i = 70 and j = 175 and k = 30, THEN conjunct2, THEN conjunct2, THEN conjunct2,
     THEN conjunct1, THEN mp, OF h]
  from whole h show ?thesis by simp
qed

text \<open>
  C5 as stated fails: at \<^verbatim>\<open>calculateBMR('female', 72.88, 142.8, 28.56)\<close> the
  roundings leave \<^verbatim>\<open>1317.5000000000002\<close>, which is neither the exact value of the
  formula at the three doubles nor its value \<^verbatim>\<open>1317.5\<close> at the three decimals.
\<close>

theorem calculateBMR_rounding_counterexample:
  "calculateBMR Female (lit 72.88) (lit 142.8) (lit 28.56)
     = Num (5794426278379521 / 4398046511104)
   \<and> calculateBMR Female (lit 72.88) (lit 142.8) (lit 28.56)
     \<noteq> Num (10 * value_of (lit 72.88) + 6.25 * value_of (lit 142.8)
              - 5 * value_of (lit 28.56) - 161)
   \<and> calculateBMR Female (lit 72.88) (lit 142.8) (lit 28.56)
     \<noteq> Num (10 * 72.88 + 6.25 * 142.8 - 5 * 28.56 - 161)"
  by (simp add: calculateBMR_shape lit_values lit_quarter_values lit_72_88 lit_142_8 lit_28_56
        js_add_Num js_sub_Num js_mul_Num value_of_def
        bmr_step_1 bmr_step_2 bmr_step_3 bmr_step_4 bmr_step_5 bmr_step_6)

lemma multiplier_values:
  "ACTIVITY_MULTIPLIERS =
     [(''sedentary'', Num (5404319552844595 / 4503599627370496)),
      (''lightly_active'', Num (11 / 8)),
      (''moderately_active'', Num (6980579422424269 / 4503599627370496)),
      (''very_active'', Num (3884354678607053 / 2251799813685248)),
      (''super_active'', Num (4278419646001971 / 2251799813685248))]"
  by (simp add: ACTIVITY_MULTIPLIERS_def lit_1_2 lit_1_375 lit_1_55 lit_1_725 lit_1_9)

lemma table_multiplier_truthy:
  "map_of ACTIVITY_MULTIPLIERS k = Some m \<Longrightarrow> m \<noteq> Num 0 \<and> m \<noteq> NaN"
  by (auto simp: multiplier_values split: if_splits)

text \<open>
  What holds of \<^verbatim>\<open>calculateTDEE\<close>: a level whose normal form is a key of the table
  takes that multiplier, and a level whose normal form is neither a key nor the name of a
  member of \<^verbatim>\<open>Object.prototype\<close> takes 1.2; the product is a double product.
\<close>

lemma calculateTDEE_table:
  "map_of ACTIVITY_MULTIPLIERS (normalize_key s) = Some m \<Longrightarrow>
   calculateTDEE b s = Math_round (js_mul b m)"
  using table_multiplier_truthy [of "normalize_key s" m]
  by (simp add: calculateTDEE_def get_property_def or_default_def js_times_def)

lemma calculateTDEE_default:
  "map_of ACTIVITY_MULTIPLIERS (normalize_key s) = None \<Longrightarrow>
   normalize_key s \<notin> set Object_prototype_names \<Longrightarrow>
   calculateTDEE b s = Math_round (js_mul b (lit 1.2))"
  by (simp add: calculateTDEE_def get_property_def or_default_def js_times_def lit_1_2)

lemma normalized_levels:
  "normalize_key ''constructor'' = ''constructor''"
  "normalize_key ''sedentary'' = ''sedentary''"
  "normalize_key ''unknown_level'' = ''unknown_level''"
  "normalize_key ''lightly active'' = ''lightly_active''"
  "normalize_key ''lightly_active'' = ''lightly_active''"
  "normalize_key ''moderately_active'' = ''moderately_active''"
  by code_simp+

lemma calculateTDEE_examples:
  "calculateTDEE (Num 1800) ''sedentary'' = Num 2160"
  "calculateTDEE (Num 1800) ''unknown_level'' = Num 2160"
  "calculateTDEE (Num 1800) ''lightly_active'' = Num 2475"
  "calculateTDEE (Num 1800) ''lightly active'' = calculateTDEE (Num 1800) ''lightly_active''"
  "calculateTDEE (Num 1805) ''moderately_active'' = Num 2798"
  using Math_round_nearest [of 2160 2160] Math_round_nearest [of 2475 2475]
    Math_round_nearest [of 2798 "11191 / 4"]
  by (simp_all add: calculateTDEE_def normalized_levels get_property_def multiplier_values
        Object_prototype_names_def or_default_def js_times_def js_mul_Num lit_1_2
        tdee_step_1 tdee_step_2 tdee_step_3)

text \<open>
  C6 at \<^verbatim>\<open>calculateTDEE(1800, 'constructor')\<close>: the level is none of the five keys,
  the bracket read finds the inherited \<^verbatim>\<open>constructor\<close> function, which is truthy, and
  the result is \<^verbatim>\<open>NaN\<close>, not the 2160 of the sedentary default.
\<close>

theorem calculateTDEE_constructor:
  "map_of ACTIVITY_MULTIPLIERS (normalize_key ''constructor'') = None
   \<and> calculateTDEE (Num 1800) ''constructor'' = NaN
   \<and> calculateTDEE (Num 1800) ''constructor'' \<noteq> calculateTDEE (Num 1800) ''sedentary''"
  by (simp add: calculateTDEE_examples(1))
     (simp add: calculateTDEE_def normalized_levels get_property_def multiplier_values
        Object_prototype_names_def or_default_def js_times_def Math_round_def)

text \<open>
  What holds of \<^verbatim>\<open>getNutritionInfo\<close> on a miss: the fallback, unless the normal form
  names a member of \<^verbatim>\<open>Object.prototype\<close>.
\<close>

lemma getNutritionInfo_fallback:
  "map_of FOOD_101_NUTRITION_MAP (normalize_key s) = None \<Longrightarrow>
   normalize_key s \<notin> set Object_prototype_names \<Longrightarrow>
   getNutritionInfo s = NutritionInfo 250 ''serving (est)''"
  by (simp add: getNutritionInfo_def get_property_def)

lemma getNutritionInfo_examples:
  "getNutritionInfo ''unknown_xyz'' = NutritionInfo 250 ''serving (est)''
   \<and> getNutritionInfo ''unknown_food'' = NutritionInfo 250 ''serving (est)''
   \<and> getNutritionInfo ''chicken wings'' = getNutritionInfo ''chicken_wings''"
  by code_simp

text \<open>
  C9 at \<^verbatim>\<open>getNutritionInfo('constructor')\<close>: the label is not a key of the table, yet
  what comes back is the inherited \<^verbatim>\<open>constructor\<close> function and not the fallback fact.
\<close>

theorem getNutritionInfo_constructor:
  "map_of FOOD_101_NUTRITION_MAP (normalize_key ''constructor'') = None
   \<and> getNutritionInfo ''constructor'' = PrototypeMember ''constructor''
   \<and> getNutritionInfo ''constructor'' \<noteq> NutritionInfo 250 ''serving (est)''"
  by code_simp

section \<open>Properties of the API client\<close>

lemma getCoachingTip_never_throws: "getCoachingTip post t c l f g \<noteq> Inl x"
  by (simp add: getCoachingTip_def split: settled.splits)

lemma getCoachingTip_verbatim:
  "post ''/coaching''
     \<lparr>user_tdee = t, calories_consumed_so_far = c, detected_food_label = l,
      detected_food_calories = f, user_goal = g\<rparr> = Fulfilled r
   \<Longrightarrow> getCoachingTip post t c l f g = Inr (data r)"
  by (simp add: getCoachingTip_def)

text \<open>
  C2, as the code has it: whenever the advice call is rejected (no answer in time, no
  connection, a status outside 2xx, anything else), \<^verbatim>\<open>getCoachingTip\<close> resolves with
  the fallback tip made from the food label, and in no case does it throw.
\<close>

theorem getCoachingTip_fallback:
  assumes "post ''/coaching''
     \<lparr>user_tdee = t, calories_consumed_so_far = c, detected_food_label = l,
      detected_food_calories = f, user_goal = g\<rparr> = Rejected e"
  shows "getCoachingTip post t c l f g
           = Inr (JObject [(''coaching_tip'',
                    JString (''You've logged '' @ l @ ''. Keep tracking your meals!''))])
         \<and> (\<forall>post' x. getCoachingTip post' t c l f g \<noteq> Inl x)"
proof
  from assms show "getCoachingTip post t c l f g
      = Inr (JObject [(''coaching_tip'',
               JString (''You've logged '' @ l @ ''. Keep tracking your meals!''))])"
    by (simp add: getCoachingTip_def fallback_tip_def)
  show "\<forall>post' x. getCoachingTip post' t c l f g \<noteq> Inl x"
    by (simp only: getCoachingTip_never_throws not_False_eq_True simp_thms)
qed

theorem getCoachingTip_fallback_witness:
  "getCoachingTip (post_rejects Timeout) (Num 2500) (Num 1200) ''hamburger'' (Num 295) Maintain
     = Inr (JObject [(''coaching_tip'',
              JString ''You've logged hamburger. Keep tracking your meals!'')])"
proof -
  have h: "post_rejects Timeout ''/coaching''
     \<lparr>user_tdee = Num 2500, calories_consumed_so_far = Num 1200,
      detected_food_label = ''hamburger'', detected_food_calories = Num 295,
      user_goal = Maintain\<rparr> = Rejected Timeout"
    by (simp add: post_rejects_def)
  from getCoachingTip_fallback
         [where post = "post_rejects Timeout" and e = Timeout and l = "''hamburger''", OF h]
  show ?thesis by simp
qed

text \<open>
  C2 as stated fails for a malformed payload: a 2xx answer whose body has no
  \<^verbatim>\<open>coaching_tip\<close> fulfils the call, and the body is returned as it came.
\<close>

theorem getCoachingTip_malformed_counterexample:
  "\<not> is_CoachingTipResponse (JObject [])
   \<and> getCoachingTip (post_resolves \<lparr>status = 200, data = JObject []\<rparr>)
        (Num 2500) (Num 1200) ''hamburger'' (Num 295) Maintain = Inr (JObject [])
   \<and> getCoachingTip (post_resolves \<lparr>status = 200, data = JObject []\<rparr>)
        (Num 2500) (Num 1200) ''hamburger'' (Num 295) Maintain \<noteq> Inr (fallback_tip ''hamburger'')"
  by (simp add: is_CoachingTipResponse_def getCoachingTip_def post_resolves_def fallback_tip_def)

lemma predictFood_resolves_only_with_data:
  "predictFood os fetch blob post uri b64 = Inr d \<Longrightarrow>
   \<exists>formData r. post ''/predict'' formData = Fulfilled r \<and> d = data r"
  by (auto simp: predictFood_def split: sum.splits settled.splits)

lemma predictFood_throws_only_predict_error:
  "predictFood os fetch blob post uri b64 = Inl x \<Longrightarrow> x = predict_error"
  by (auto simp: predictFood_def split: sum.splits settled.splits)

text \<open>
  C8, as the code has it: when a step of \<^verbatim>\<open>predictFood\<close> rejects, the reading of the
  image on the web or the request itself, \<^verbatim>\<open>predictFood\<close> throws its own error with
  the fixed message; it does not resolve and puts no label in place of the answer.
\<close>

theorem predictFood_failure:
  assumes "build_form_data os fetch blob uri b64 = Inl e
           \<or> (\<exists>formData. build_form_data os fetch blob uri b64 = Inr formData
                \<and> post ''/predict'' formData = Rejected e)"
  shows "predictFood os fetch blob post uri b64
           = Inl (Error ''Failed to predict food. Please try again.'')"
  using assms by (auto simp: predictFood_def predict_error_def)

theorem predictFood_failure_witness:
  "predictFood Native (rejects NetworkError) (rejects NetworkError) (post_rejects NetworkError)
     ''file:///data/cache/photo.jpg'' False
     = Inl (Error ''Failed to predict food. Please try again.'')
   \<and> predictFood Web (rejects NetworkError) (rejects NetworkError)
        (post_resolves \<lparr>status = 200, data = JObject []\<rparr>)
        ''blob:http://localhost/photo'' False
     = Inl (Error ''Failed to predict food. Please try again.'')"
proof -
  have h1: "build_form_data Native (rejects NetworkError) (rejects NetworkError)
              ''file:///data/cache/photo.jpg'' False = Inl NetworkError
            \<or> (\<exists>formData. build_form_data Native (rejects NetworkError) (rejects NetworkError)
                  ''file:///data/cache/photo.jpg'' False = Inr formData
                \<and> post_rejects NetworkError ''/predict'' formData = Rejected NetworkError)"
    by (simp add: build_form_data_def post_rejects_def Let_def)
  have h2: "build_form_data Web (rejects NetworkError) (rejects NetworkError)
              ''blob:http://localhost/photo'' False = Inl NetworkError
            \<or> (\<exists>formData. build_form_data Web (rejects NetworkError) (rejects NetworkError)
                  ''blob:http://localhost/photo'' False = Inr formData
                \<and> post_resolves \<lparr>status = 200, data = JObject []\<rparr> ''/predict'' formData
                    = Rejected NetworkError)"
    by (simp add: build_form_data_def rejects_def Let_def)
  from predictFood_failure
         [where post = "post_rejects NetworkError" and e = NetworkError and os = Native, OF h1]
       predictFood_failure
         [where post = "post_resolves \<lparr>status = 200, data = JObject []\<rparr>"
            and e = NetworkError and os = Web, OF h2]
  show ?thesis by simp
qed

text \<open>
  C8 as stated fails for a malformed response: a 2xx answer whose body has neither label
  nor confidence fulfils the call, and \<^verbatim>\<open>predictFood\<close> resolves with that body.
\<close>

theorem predictFood_malformed_counterexample:
  "\<not> is_FoodPredictionResponse (JObject [])
   \<and> predictFood Native (rejects NetworkError) (rejects NetworkError)
        (post_resolves \<lparr>status = 200, data = JObject []\<rparr>)
        ''file:///data/cache/photo.jpg'' False = Inr (JObject [])"
  by (simp add: is_FoodPredictionResponse_def predictFood_def build_form_data_def
        post_resolves_def Let_def)

section \<open>Properties of the nutrition context\<close>

subsection \<open>The decimal string of a clock reading\<close>

lemma decimal_value_snoc: "decimal_value (s @ [c]) = 10 * decimal_value s + digit_value c"
  by (simp add: decimal_value_def)

lemma decimal_value_single: "decimal_value [c] = digit_value c"
  by (simp add: decimal_value_def)

lemma digit_value_digit_char: "d < 10 \<Longrightarrow> digit_value (digit_char d) = d"
  by (simp add: digit_value_def digit_char_def)

lemma toString_small: "n < 10 \<Longrightarrow> toString n = [digit_char n]"
  by (subst toString.simps) simp

lemma toString_large:
  "\<not> n < 10 \<Longrightarrow> toString n = toString (n div 10) @ [digit_char (n mod 10)]"
  by (subst toString.simps) simp

lemma decimal_value_toString: "decimal_value (toString n) = n"
proof (induction n rule: toString.induct)
  case (1 n)
  show ?case
  proof (cases "n < 10")
    case True
    then show ?thesis
      by (simp only: toString_small decimal_value_single digit_value_digit_char)
  next
    case False
    with 1 have IH: "decimal_value (toString (n div 10)) = n div 10" by blast
    have "n mod 10 < 10" by simp
    then have digit: "digit_value (digit_char (n mod 10)) = n mod 10"
      by (rule digit_value_digit_char)
    have unfolded: "toString n = toString (n div 10) @ [digit_char (n mod 10)]"
      using False by (rule toString_large)
    have "decimal_value (toString n) = 10 * (n div 10) + n mod 10"
      unfolding unfolded decimal_value_snoc IH digit by (rule refl)
    then show ?thesis by simp
  qed
qed

lemma toString_inject:
  assumes "toString m = toString n"
  shows "m = n"
proof -
  from assms have "decimal_value (toString m) = decimal_value (toString n)"
    by (rule arg_cong)
  then show ?thesis by (simp only: decimal_value_toString)
qed

subsection \<open>The ledger\<close>

lemma meals_addMeal:
  "meals (fst (addMeal st meal now w))
     = meals st @ [MealDraft.extend meal (MealLogEntry.fields (toString now))]"
  by (cases w) (simp_all add: addMeal_def Let_def)

lemma meals_removeMeal:
  "meals (fst (removeMeal st mealId w)) = filter (\<lambda>meal. meal_id meal \<noteq> mealId) (meals st)"
  by (cases w) (simp_all add: removeMeal_def Let_def)

lemma meal_id_extend: "meal_id (MealDraft.extend meal (MealLogEntry.fields i)) = i"
  by (simp add: MealDraft.extend_def MealLogEntry.fields_def)

lemma append_times_append: "append_times (xs @ ys) = append_times xs @ append_times ys"
  by (induction xs rule: append_times.induct) simp_all

lemma run_snoc: "run st (ops @ [x]) = apply_op (run st ops) x"
  by (simp add: run_def)

lemma ids_apply_op:
  "set (map meal_id (meals (apply_op st x)))
     \<subseteq> set (map meal_id (meals st)) \<union> toString ` set (append_times [x])"
  by (cases x) (auto simp: meals_addMeal meals_removeMeal meal_id_extend)

lemma ids_run:
  "set (map meal_id (meals (run st ops)))
     \<subseteq> set (map meal_id (meals st)) \<union> toString ` set (append_times ops)"
proof (induction ops rule: rev_induct)
  case Nil
  show ?case by (simp add: run_def)
next
  case (snoc x ops)
  have step: "set (map meal_id (meals (run st (ops @ [x]))))
      \<subseteq> set (map meal_id (meals (run st ops))) \<union> toString ` set (append_times [x])"
    using ids_apply_op [of "run st ops" x] by (simp only: run_snoc)
  have split: "toString ` set (append_times (ops @ [x]))
      = toString ` set (append_times ops) \<union> toString ` set (append_times [x])"
    by (simp only: append_times_append set_append image_Un)
  from step snoc.IH show ?case
    unfolding split by blast
qed

subsection \<open>Concrete runs\<close>

lemma digit_chars:
  "digit_char 0 = CHR ''0''" "digit_char 1 = CHR ''1''" "digit_char 2 = CHR ''2''"
  "digit_char 3 = CHR ''3''" "digit_char 4 = CHR ''4''" "digit_char 5 = CHR ''5''"
  "digit_char 6 = CHR ''6''" "digit_char 7 = CHR ''7''" "digit_char 8 = CHR ''8''"
  "digit_char 9 = CHR ''9''" "digit_char (Suc 0) = CHR ''1''"
  by code_simp+

lemma clock_strings:
  "toString 1714564800000 = ''1714564800000''"
  "toString 1714564800001 = ''1714564800001''"
  "toString 1714564800002 = ''1714564800002''"
  by (simp_all add: toString.simps digit_chars)

lemma meals_initial_state: "meals initial_state = []"
  by (simp add: initial_state_def)

lemma example_entry:
  "MealDraft.extend example_meal (MealLogEntry.fields i)
     = \<lparr>date = ''2024-05-01'', time = ''12:30'', food_label = ''pizza'',
        calories = Num 266, quantity = Num 1, unit = ''slice'', meal_id = i\<rparr>"
  by (simp add: example_meal_def MealDraft.extend_def MealLogEntry.fields_def)

lemma meals_example_state:
  "meals example_state = [MealDraft.extend example_meal (MealLogEntry.fields ''1714564800000'')]"
  by (simp add: example_state_def meals_addMeal meals_initial_state clock_strings)

subsection \<open>Ids and the round trip\<close>

text \<open>
  C3, as the code has it: the id is the decimal string of the clock reading and nothing
  checks it against the ids held. Ids stay pairwise distinct along a run whose appends
  read pairwise different clock values, none of them the id of an entry held at the start.
\<close>

theorem ids_distinct_when_clock_fresh:
  assumes "distinct (map meal_id (meals st))"
    and "distinct (append_times ops)"
    and "set (map toString (append_times ops)) \<inter> set (map meal_id (meals st)) = {}"
  shows "distinct (map meal_id (meals (run st ops)))"
  using assms(2,3)
proof (induction ops rule: rev_induct)
  case Nil
  from assms(1) show ?case by (simp add: run_def)
next
  case (snoc x ops)
  then have IH: "distinct (map meal_id (meals (run st ops)))"
    by (simp add: append_times_append Int_Un_distrib2)
  show ?case
  proof (cases x)
    case (Append meal now w)
    from snoc.prems Append have fresh1: "now \<notin> set (append_times ops)"
      and fresh2: "toString now \<notin> set (map meal_id (meals st))"
      by (simp_all add: append_times_append)
    from fresh1 have "toString now \<notin> toString ` set (append_times ops)"
      by (auto dest: toString_inject)
    with fresh2 ids_run [of st ops]
    have "toString now \<notin> set (map meal_id (meals (run st ops)))" by blast
    with IH Append show ?thesis
      by (simp add: run_snoc meals_addMeal meal_id_extend)
  next
    case (Remove mealId w)
    with IH show ?thesis
      by (simp add: run_snoc meals_removeMeal distinct_map_filter)
  qed
qed

theorem ids_distinct_when_clock_fresh_witness:
  "distinct (map meal_id (meals example_state))
   \<and> distinct (append_times
        [Append example_meal 1714564800001 Written, Remove ''1714564800000'' Written,
         Append example_meal 1714564800002 (WriteFailed ''disk full'')])
   \<and> set (map toString (append_times
        [Append example_meal 1714564800001 Written, Remove ''1714564800000'' Written,
         Append example_meal 1714564800002 (WriteFailed ''disk full'')]))
       \<inter> set (map meal_id (meals example_state)) = {}
   \<and> distinct (map meal_id (meals (run example_state
        [Append example_meal 1714564800001 Written, Remove ''1714564800000'' Written,
         Append example_meal 1714564800002 (WriteFailed ''disk full'')])))"
proof -
  have h1: "distinct (map meal_id (meals example_state))"
    by (simp add: meals_example_state)
  have h2: "distinct (append_times
        [Append example_meal 1714564800001 Written, Remove ''1714564800000'' Written,
         Append example_meal 1714564800002 (WriteFailed ''disk full'')])" by simp
  have h3: "set (map toString (append_times
        [Append example_meal 1714564800001 Written, Remove ''1714564800000'' Written,
         Append example_meal 1714564800002 (WriteFailed ''disk full'')]))
       \<inter> set (map meal_id (meals example_state)) = {}"
    by (simp add: meals_example_state meal_id_extend clock_strings)
  note r = ids_distinct_when_clock_fresh [OF h1 h2 h3]
  show ?thesis by (rule conjI [OF h1 conjI [OF h2 conjI [OF h3 r]]])
qed

text \<open>
  C3 as stated fails: two appends that read the same clock value give two entries with
  the same id.
\<close>

theorem ids_same_millisecond_counterexample:
  "map meal_id (meals (run initial_state
      [Append example_meal 1714564800000 Written, Append example_meal 1714564800000 Written]))
     = [''1714564800000'', ''1714564800000'']
   \<and> \<not> distinct (map meal_id (meals (run initial_state
      [Append example_meal 1714564800000 Written, Append example_meal 1714564800000 Written])))"
  by (simp add: run_def meals_addMeal meals_initial_state meal_id_extend clock_strings)

text \<open>
  C4, as the code has it: when no entry held has the id that the append gives (the
  decimal string of its clock reading), appending and then removing that id leaves the
  ledger, and so the entries of every date, as before.
\<close>

theorem append_remove_roundtrip:
  assumes "toString now \<notin> set (map meal_id (meals st))"
  shows "meals (fst (removeMeal (fst (addMeal st meal now w1)) (toString now) w2)) = meals st
         \<and> getTodaysMeals (fst (removeMeal (fst (addMeal st meal now w1)) (toString now) w2)) d
             = getTodaysMeals st d"
proof -
  from assms have "filter (\<lambda>m. meal_id m \<noteq> toString now) (meals st) = meals st"
    by (auto simp: filter_id_conv image_iff)
  then have "meals (fst (removeMeal (fst (addMeal st meal now w1)) (toString now) w2)) = meals st"
    by (simp add: meals_removeMeal meals_addMeal meal_id_extend)
  then show ?thesis by (simp add: getTodaysMeals_def)
qed

theorem append_remove_roundtrip_witness:
  "toString 1714564800001 \<notin> set (map meal_id (meals example_state))
   \<and> getTodaysMeals (fst (removeMeal (fst (addMeal example_state example_meal 1714564800001 Written))
        (toString 1714564800001) Written)) ''2024-05-01''
       = getTodaysMeals example_state ''2024-05-01''"
proof -
  have h: "toString 1714564800001 \<notin> set (map meal_id (meals example_state))"
    by (simp add: meals_example_state meal_id_extend clock_strings)
  note r = append_remove_roundtrip [OF h, THEN conjunct2]
  show ?thesis by (rule conjI [OF h r])
qed

text \<open>
  C4 as stated fails: when an entry with the same id is held already, the removal takes
  it away together with the appended one, and the entries of its date change.
\<close>

theorem append_remove_counterexample:
  "getTodaysMeals example_state ''2024-05-01'' \<noteq> []
   \<and> getTodaysMeals (fst (removeMeal (fst (addMeal example_state example_meal 1714564800000 Written))
        (toString 1714564800000) Written)) ''2024-05-01'' = []"
  by (simp add: getTodaysMeals_def meals_removeMeal meals_addMeal meals_example_state
        meal_id_extend clock_strings example_entry)

subsection \<open>Summary and persistence\<close>

lemma value_of_Num: "value_of (Num r) = r"
  by (simp add: value_of_def)

lemma whole_number_cases:
  assumes "is_whole_number c"
  obtains n where "c = Num (of_int n)" and "0 \<le> n"
proof (cases c)
  case (Num r)
  with assms have r: "0 \<le> r" "of_int \<lfloor>r\<rfloor> = r"
    by (simp_all only: is_whole_number_def js_number.case)
  from r(1) have "0 \<le> \<lfloor>r\<rfloor>" by simp
  moreover have "c = Num (of_int \<lfloor>r\<rfloor>)" by (simp only: Num r(2))
  ultimately show thesis using that by blast
next
  case PosInfinity
  with assms show thesis by (simp add: is_whole_number_def)
next
  case NegInfinity
  with assms show thesis by (simp add: is_whole_number_def)
next
  case NaN
  with assms show thesis by (simp add: is_whole_number_def)
qed

lemma whole_total_nonneg:
  "list_all is_whole_number cs \<Longrightarrow> 0 \<le> sum_list (map value_of cs)"
proof (induction cs)
  case Nil
  show ?case by simp
next
  case (Cons c cs)
  from Cons.prems obtain n where "c = Num (of_int n)" and "0 \<le> n"
    by (auto elim: whole_number_cases)
  with Cons show ?case by (simp add: value_of_Num)
qed

text \<open>
  Adding whole numbers from the left stays exact as long as the sum is below
  \<^verbatim>\<open>2^53\<close>.
\<close>

lemma foldl_js_add_whole:
  assumes "list_all is_whole_number cs" and "0 \<le> n"
    and "of_int n + sum_list (map value_of cs) < 2 ^ 53"
  shows "foldl js_add (Num (of_int n)) cs = Num (of_int n + sum_list (map value_of cs))"
  using assms
proof (induction cs arbitrary: n)
  case Nil
  show ?case by simp
next
  case (Cons c cs)
  from Cons.prems(1) obtain m where c: "c = Num (of_int m)" and m: "0 \<le> m"
    by (auto elim: whole_number_cases)
  from Cons.prems(1) have rest: "0 \<le> sum_list (map value_of cs)"
    by (simp add: whole_total_nonneg)
  from Cons.prems(3) c have total: "(of_int (n + m) :: rat) + sum_list (map value_of cs) < 2 ^ 53"
    by (simp add: value_of_Num add.assoc)
  with rest have "(of_int (n + m) :: rat) < of_int (2 ^ 53)" by simp
  then have "n + m < 2 ^ 53" by (simp only: of_int_less_iff)
  with Cons.prems(2) m have "\<bar>n + m\<bar> < 2 ^ 53" by simp
  then have step: "js_add (Num (of_int n)) c = Num (of_int (n + m))"
    using to_double_int [of "n + m"] by (simp add: js_add_def c)
  from Cons.prems(1) have "list_all is_whole_number cs" by simp
  moreover from Cons.prems(2) m have "0 \<le> n + m" by simp
  ultimately have "foldl js_add (Num (of_int (n + m))) cs
      = Num (of_int (n + m) + sum_list (map value_of cs))"
    using total by (rule Cons.IH)
  with step c show ?case by (simp add: value_of_Num add.assoc)
qed

lemma total_calories_fold:
  "total_calories (getTodaysSummary st today d)
     = foldl js_add (Num 0) (map calories (getTodaysMeals st d))"
  by (simp add: getTodaysSummary_def Let_def lit_values foldl_map)

lemma total_calories_whole:
  assumes "list_all (\<lambda>m. is_whole_number (calories m)) (getTodaysMeals st d)"
    and "exact_total (getTodaysMeals st d) < 2 ^ 53"
  shows "total_calories (getTodaysSummary st today d) = Num (exact_total (getTodaysMeals st d))"
proof -
  from assms(1) have "list_all is_whole_number (map calories (getTodaysMeals st d))"
    by (simp add: list_all_iff)
  moreover have "sum_list (map value_of (map calories (getTodaysMeals st d)))
      = exact_total (getTodaysMeals st d)"
    by (simp add: exact_total_def comp_def)
  ultimately have "foldl js_add (Num (of_int 0)) (map calories (getTodaysMeals st d))
      = Num (of_int 0 + exact_total (getTodaysMeals st d))"
    using foldl_js_add_whole [of "map calories (getTodaysMeals st d)" 0] assms(2) by simp
  then show ?thesis by (simp add: total_calories_fold)
qed

text \<open>
  C7, as the code has it: the summary's calories are the calories of the entries of the
  date added from the left in double arithmetic, starting at 0; each macro figure is
  \<^verbatim>\<open>Math.round\<close> of the double product and quotient of that total; the meals are the
  entries of the date in the order of the ledger. When the calories are whole numbers
  from zero up with a sum below \<^verbatim>\<open>2^53\<close>, the total is their exact sum.
\<close>

theorem getTodaysSummary_double:
  "total_calories (getTodaysSummary st today d)
     = foldl js_add (Num 0) (map calories (getTodaysMeals st d))
   \<and> total_protein (getTodaysSummary st today d)
       = Math_round (js_div (js_mul (total_calories (getTodaysSummary st today d)) (lit 0.30))
                            (lit 4))
   \<and> total_carbs (getTodaysSummary st today d)
       = Math_round (js_div (js_mul (total_calories (getTodaysSummary st today d)) (lit 0.45))
                            (lit 4))
   \<and> total_fats (getTodaysSummary st today d)
       = Math_round (js_div (js_mul (total_calories (getTodaysSummary st today d)) (lit 0.25))
                            (lit 9))
   \<and> summary_meals (getTodaysSummary st today d) = getTodaysMeals st d
   \<and> getTodaysMeals st d = filter (\<lambda>m. date m = d) (meals st)
   \<and> (list_all (\<lambda>m. is_whole_number (calories m)) (getTodaysMeals st d)
        \<and> exact_total (getTodaysMeals st d) < 2 ^ 53
      \<longrightarrow> total_calories (getTodaysSummary st today d)
            = Num (exact_total (getTodaysMeals st d)))"
proof -
  have macros:
    "total_protein (getTodaysSummary st today d)
       = Math_round (js_div (js_mul (total_calories (getTodaysSummary st today d)) (lit 0.30))
                            (lit 4))"
    "total_carbs (getTodaysSummary st today d)
       = Math_round (js_div (js_mul (total_calories (getTodaysSummary st today d)) (lit 0.45))
                            (lit 4))"
    "total_fats (getTodaysSummary st today d)
       = Math_round (js_div (js_mul (total_calories (getTodaysSummary st today d)) (lit 0.25))
                            (lit 9))"
    by (simp_all add: getTodaysSummary_def Let_def)
  have entries: "summary_meals (getTodaysSummary st today d) = getTodaysMeals st d"
    "getTodaysMeals st d = filter (\<lambda>m. date m = d) (meals st)"
    by (simp_all add: getTodaysSummary_def getTodaysMeals_def Let_def)
  from total_calories_fold [of st today d] macros entries total_calories_whole [of st d today]
  show ?thesis by blast
qed

theorem getTodaysSummary_double_witness:
  "list_all (\<lambda>m. is_whole_number (calories m))
      (getTodaysMeals (state_with [entry_with (Num 266) ''1'', entry_with (Num 295) ''2''])
         ''2024-05-01'')
   \<and> exact_total
        (getTodaysMeals (state_with [entry_with (Num 266) ''1'', entry_with (Num 295) ''2''])
           ''2024-05-01'') < 2 ^ 53
   \<and> total_calories
        (getTodaysSummary (state_with [entry_with (Num 266) ''1'', entry_with (Num 295) ''2''])
           ''2024-05-01'' ''2024-05-01'') = Num 561"
proof -
  have view: "getTodaysMeals (state_with [entry_with (Num 266) ''1'', entry_with (Num 295) ''2''])
         ''2024-05-01'' = [entry_with (Num 266) ''1'', entry_with (Num 295) ''2'']"
    by (simp add: getTodaysMeals_def state_with_def entry_with_def)
  have h1: "list_all (\<lambda>m. is_whole_number (calories m))
      (getTodaysMeals (state_with [entry_with (Num 266) ''1'', entry_with (Num 295) ''2''])
         ''2024-05-01'')"
    unfolding view by (simp add: entry_with_def is_whole_number_def)
  have total: "exact_total
        (getTodaysMeals (state_with [entry_with (Num 266) ''1'', entry_with (Num 295) ''2''])
           ''2024-05-01'') = 561"
    unfolding view by (simp add: exact_total_def entry_with_def value_of_Num)
  then have h2: "exact_total
        (getTodaysMeals (state_with [entry_with (Num 266) ''1'', entry_with (Num 295) ''2''])
           ''2024-05-01'') < 2 ^ 53" by simp
  from getTodaysSummary_double
         [of "state_with [entry_with (Num 266) ''1'', entry_with (Num 295) ''2'']"
             "''2024-05-01''" "''2024-05-01''"] h1 h2
  have "total_calories
        (getTodaysSummary (state_with [entry_with (Num 266) ''1'', entry_with (Num 295) ''2''])
           ''2024-05-01'' ''2024-05-01'')
      = Num (exact_total
        (getTodaysMeals (state_with [entry_with (Num 266) ''1'', entry_with (Num 295) ''2''])
           ''2024-05-01''))" by blast
  then have r: "total_calories
        (getTodaysSummary (state_with [entry_with (Num 266) ''1'', entry_with (Num 295) ''2''])
           ''2024-05-01'' ''2024-05-01'') = Num 561"
    by (simp only: total)
  show ?thesis by (rule conjI [OF h1 conjI [OF h2 r]])
qed

text \<open>
  C7 as stated fails. With two entries of 0.1 and 0.2 calories the total is
  \<^verbatim>\<open>0.30000000000000004\<close>, not the sum of the two calories. With one entry of
  \<^verbatim>\<open>113.33333333333333\<close> calories the protein figure is 9, while the rounded exact share
  of that total is 8.
\<close>

theorem getTodaysSummary_rounding_counterexample:
  "total_calories
     (getTodaysSummary (state_with [entry_with (lit 0.1) ''1'', entry_with (lit 0.2) ''2''])
        ''2024-05-01'' ''2024-05-01'')
     = Num (1351079888211149 / 4503599627370496)
   \<and> total_calories
     (getTodaysSummary (state_with [entry_with (lit 0.1) ''1'', entry_with (lit 0.2) ''2''])
        ''2024-05-01'' ''2024-05-01'')
     \<noteq> Num (value_of (lit 0.1) + value_of (lit 0.2))
   \<and> total_calories
     (getTodaysSummary (state_with [entry_with (lit 113.33333333333333) ''1''])
        ''2024-05-01'' ''2024-05-01'')
     = lit 113.33333333333333
   \<and> total_protein
     (getTodaysSummary (state_with [entry_with (lit 113.33333333333333) ''1''])
        ''2024-05-01'' ''2024-05-01'')
     = Num 9
   \<and> round (value_of (lit 113.33333333333333) * 0.30 / 4) = 8"
  using Math_round_nearest [of 9 "17 / 2"]
    round_unique [of "23925373020405759 / 2814749767106560" 8]
  by (simp add: getTodaysSummary_def getTodaysMeals_def state_with_def entry_with_def Let_def
        lit_values lit_0_1 lit_0_2 lit_0_3 lit_113_3 js_add_Num js_mul_Num js_div_Num
        value_of_def sum_step_1 sum_step_2 sum_step_3 sum_step_4 sum_step_5)

text \<open>
  C10: when the write to the durable store fails, \<^verbatim>\<open>addMeal\<close> and \<^verbatim>\<open>setProfile\<close>
  raise the error, the state in memory holds the new entry, respectively the new profile,
  and the store is as it was.
\<close>

theorem mutation_not_rolled_back:
  "snd (addMeal st meal now (WriteFailed e)) = Inl e
   \<and> meals (fst (addMeal st meal now (WriteFailed e)))
       = meals st @ [MealDraft.extend meal (MealLogEntry.fields (toString now))]
   \<and> stored_meals (fst (addMeal st meal now (WriteFailed e))) = stored_meals st
   \<and> snd (setProfile st p (WriteFailed e)) = Inl e
   \<and> profile (fst (setProfile st p (WriteFailed e))) = Some p
   \<and> stored_profile (fst (setProfile st p (WriteFailed e))) = stored_profile st"
  by (simp add: addMeal_def setProfile_def Let_def)

end
